theory Spec2Isabelle
  imports Complex_Main "HOL-Library.Sublist"
begin

section \<open>Byte-size formatter\<close>

text \<open>
  \<^verbatim>\<open>formatFileSize(bytes)\<close> of \<^verbatim>\<open>app.js\<close> (the same text in every variant of the
  script that has it):
  \<^verbatim>\<open>
    if (bytes === 0) return '0 Bytes';
    const k = 1024;
    const sizes = ['Bytes', 'KB', 'MB', 'GB', 'TB'];
    const i = Math.floor(Math.log(bytes) / Math.log(k));
    return parseFloat((bytes / Math.pow(k, i)).toFixed(2)) + ' ' + sizes[i];
  \<close>
  JavaScript numbers are IEEE 754 binary64 values, and the unit index depends on how the
  logarithms and their quotient are rounded: just below a power of 1024 the rounded
  quotient is already the next integer. The arithmetic is therefore modelled on doubles: a
  double is a real number \<open>m * 2^e\<close> with an integer \<open>m\<close> of at most 53 bits, and every
  operation returns the double nearest to its exact result.
\<close>

subsection \<open>Rounding to a double\<close>

text \<open>The integer nearest to \<open>y\<close>, the even one of the two on a tie.\<close>

definition round_half_even :: "real \<Rightarrow> int" where
  "round_half_even y =
     (let f = \<lfloor>y\<rfloor> in
      if y - of_int f < 1 / 2 then f
      else if 1 / 2 < y - of_int f then f + 1
      else if even f then f else f + 1)"

definition pow2 :: "int \<Rightarrow> real" where
  "pow2 e = 2 powr of_int e"

text \<open>
  The exponent of the unit in the last place of a positive \<open>x\<close>: with
  \<open>2^n \<le> x < 2^(n+1)\<close> the doubles around \<open>x\<close> are the multiples of \<open>2^(n-52)\<close>.
\<close>

definition ulp_exponent :: "real \<Rightarrow> int" where
  "ulp_exponent x = \<lfloor>log 2 x\<rfloor> - 52"

text \<open>
  \<open>fl x\<close> is the double nearest to the real number \<open>x\<close>, ties to the even significand
  (the rounding mode of every JavaScript operation). The exponent range is not bounded
  here: for a byte count below \<open>2^1024\<close> every value the function computes is zero or
  lies between \<open>2^(-1022)\<close> and \<open>2^1024\<close>, where no subnormal number and no overflow
  occurs.
\<close>

definition fl :: "real \<Rightarrow> real" where
  "fl x =
     sgn x * of_int (round_half_even (\<bar>x\<bar> / pow2 (ulp_exponent \<bar>x\<bar>)))
       * pow2 (ulp_exponent \<bar>x\<bar>)"

text \<open>
  \<^verbatim>\<open>Math.log(x)\<close>. ECMAScript leaves the precision of \<^verbatim>\<open>Math.log\<close> to the
  implementation; it is taken here to return the double nearest to the natural logarithm
  of its argument.
\<close>

definition Math_log :: "real \<Rightarrow> real" where
  "Math_log x = fl (ln x)"

subsection \<open>The formatter\<close>

definition sizes :: "string list" where
  "sizes = [''Bytes'', ''KB'', ''MB'', ''GB'', ''TB'']"

text \<open>
  \<^verbatim>\<open>Math.floor(Math.log(bytes) / Math.log(k))\<close> with \<^verbatim>\<open>k = 1024\<close>: both logarithms are
  rounded to doubles, and so is their quotient; \<^verbatim>\<open>Math.floor\<close> of a double is exact.
\<close>

definition unit_index :: "nat \<Rightarrow> nat" where
  "unit_index bytes = nat \<lfloor>fl (Math_log (real bytes) / Math_log 1024)\<rfloor>"

text \<open>
  \<^verbatim>\<open>x.toFixed(2)\<close> prints the decimal \<open>n / 100\<close> for the integer \<open>n\<close> with
  \<open>n / 100 - x\<close> closest to zero, the larger \<open>n\<close> on a tie, where \<open>x\<close> is the exact value
  of the double. For \<open>0 \<le> x < 10^21\<close> that is \<open>n = \<lfloor>100 x + 1/2\<rfloor>\<close>; \<open>toFixed2\<close> returns this
  count of hundredths.
\<close>

definition toFixed2 :: "real \<Rightarrow> nat" where
  "toFixed2 x = nat \<lfloor>x * 100 + 1 / 2\<rfloor>"

definition digit_char :: "nat \<Rightarrow> char" where
  "digit_char d = ''0123456789'' ! d"

text \<open>Decimal digits of a non-negative integer, as JavaScript prints it.\<close>

function nat_toString :: "nat \<Rightarrow> string" where
  "nat_toString n =
     (if n < 10 then [digit_char n]
      else nat_toString (n div 10) @ [digit_char (n mod 10)])"
  by pat_completeness auto
termination
  by (relation "measure id") auto

declare nat_toString.simps [simp del]

text \<open>
  \<^verbatim>\<open>parseFloat(s) + ' '\<close> for the string \<open>s\<close> that \<^verbatim>\<open>toFixed(2)\<close> printed: the number
  \<open>h / 100\<close> converted back to a string, which drops the trailing zeros of the fraction
  and the decimal point with them.
\<close>

definition hundredths_toString :: "nat \<Rightarrow> string" where
  "hundredths_toString h =
     nat_toString (h div 100) @
     (if h mod 100 = 0 then []
      else if h mod 10 = 0 then [CHR ''.'', digit_char (h mod 100 div 10)]
      else [CHR ''.'', digit_char (h mod 100 div 10), digit_char (h mod 10)])"

text \<open>
  \<^verbatim>\<open>sizes[i]\<close> past the end of the array is \<^verbatim>\<open>undefined\<close>, and string concatenation
  prints it as the text \<^verbatim>\<open>undefined\<close>. \<^verbatim>\<open>Math.pow(k, i)\<close> is the power of two
  \<open>1024^i\<close>, a double, and the quotient \<^verbatim>\<open>bytes / Math.pow(k, i)\<close> is rounded to a double.
  The argument is a byte count that is itself a double: an integer \<open>m * 2^s\<close> with
  \<open>m < 2^53\<close>.
\<close>

definition formatFileSize :: "nat \<Rightarrow> string" where
  "formatFileSize bytes =
     (if bytes = 0 then ''0 Bytes''
      else let i = unit_index bytes in
        hundredths_toString (toFixed2 (fl (real bytes / 1024 ^ i))) @ '' '' @
        (if i < length sizes then sizes ! i else ''undefined''))"



subsection \<open>Rational bounds for the logarithm of two\<close>




section \<open>Query parameters\<close>

text \<open>
  Every variant of the script reads the query string through the browser's
  \<^verbatim>\<open>new URLSearchParams(window.location.search)\<close> and its methods \<^verbatim>\<open>get\<close>, \<^verbatim>\<open>has\<close>,
  \<^verbatim>\<open>entries\<close> and \<^verbatim>\<open>toString\<close>. That class is the browser's, not the repository's; it
  is modelled after the URL Standard's \<^verbatim>\<open>application/x-www-form-urlencoded\<close> parser
  and serializer. Strings are sequences of bytes (UTF-8); the object is the list of
  name/value pairs in the order of the query string. Decoding the bytes of a name or a
  value as UTF-8 is the identity on this representation; a percent-decoded sequence that
  is not valid UTF-8, which the browser replaces by U+FFFD, is outside the model.
\<close>

type_synonym params = "(string \<times> string) list"

text \<open>Strict splitting of a string on a delimiter.\<close>

fun split_on :: "char \<Rightarrow> string \<Rightarrow> string list" where
  "split_on d [] = [] # []"
| "split_on d (c # cs) =
     (if c = d then [] # split_on d cs
      else (case split_on d cs of
              [] \<Rightarrow> [c] # []
            | x # xs \<Rightarrow> (c # x) # xs))"

text \<open>The value of an ASCII hexadecimal digit: \<^verbatim>\<open>0-9\<close>, \<^verbatim>\<open>A-F\<close> or \<^verbatim>\<open>a-f\<close>.\<close>

definition hex_value :: "char \<Rightarrow> nat option" where
  "hex_value c =
     (let v = (of_char c :: nat) in
      if 48 \<le> v \<and> v \<le> 57 then Some (v - 48)
      else if 65 \<le> v \<and> v \<le> 70 then Some (v - 55)
      else if 97 \<le> v \<and> v \<le> 102 then Some (v - 87)
      else None)"

text \<open>
  Percent-decoding: \<^verbatim>\<open>%\<close> followed by two hexadecimal digits is the byte they
  denote; every other byte stands for itself.
\<close>

fun percent_decode :: "string \<Rightarrow> string" where
  "percent_decode (c # h # l # rest) =
     (if c = CHR ''%'' then
        (case hex_value h of
           None \<Rightarrow> c # percent_decode (h # l # rest)
         | Some a \<Rightarrow>
            (case hex_value l of
               None \<Rightarrow> c # percent_decode (h # l # rest)
             | Some b \<Rightarrow> char_of (16 * a + b) # percent_decode rest))
      else c # percent_decode (h # l # rest))"
| "percent_decode cs = cs"

definition plus_to_space :: "char \<Rightarrow> char" where
  "plus_to_space c = (if c = CHR ''+'' then CHR '' '' else c)"

text \<open>Decoding of one name or value: \<^verbatim>\<open>+\<close> is a space, then percent-decoding.\<close>

definition form_decode :: "string \<Rightarrow> string" where
  "form_decode s = percent_decode (map plus_to_space s)"

definition parse_pair :: "string \<Rightarrow> string \<times> string" where
  "parse_pair bytes =
     (let name = takeWhile (\<lambda>c. c \<noteq> CHR ''='') bytes;
          val = drop 1 (dropWhile (\<lambda>c. c \<noteq> CHR ''='') bytes)
      in (form_decode name, form_decode val))"

definition urlencoded_parse :: "string \<Rightarrow> params" where
  "urlencoded_parse input =
     map parse_pair (filter (\<lambda>bytes. bytes \<noteq> []) (split_on CHR ''&'' input))"

text \<open>The constructor drops one leading \<^verbatim>\<open>?\<close> of its argument.\<close>

definition URLSearchParams :: "string \<Rightarrow> params" where
  "URLSearchParams init =
     urlencoded_parse (if take 1 init = ''?'' then drop 1 init else init)"

text \<open>\<^verbatim>\<open>get(name)\<close>: the value of the first pair with that name, \<^verbatim>\<open>null\<close> without one.\<close>

fun URLSearchParams_get :: "params \<Rightarrow> string \<Rightarrow> string option" where
  "URLSearchParams_get [] name = None"
| "URLSearchParams_get ((n, v) # ps) name =
     (if n = name then Some v else URLSearchParams_get ps name)"

definition URLSearchParams_has :: "params \<Rightarrow> string \<Rightarrow> bool" where
  "URLSearchParams_has ps name = (name \<in> set (map fst ps))"

definition urlencoded_safe :: "char \<Rightarrow> bool" where
  "urlencoded_safe c =
     (c \<in> set ''*-._0123456789ABCDEFGHIJKLMNOPQRSTUVWXYZabcdefghijklmnopqrstuvwxyz'')"

text \<open>The upper-case hexadecimal digit of a value below sixteen.\<close>

definition hex_digit :: "nat \<Rightarrow> char" where
  "hex_digit n = (if n < 10 then char_of (48 + n) else char_of (55 + n))"

definition byte_serialize_char :: "char \<Rightarrow> string" where
  "byte_serialize_char c =
     (if c = CHR '' '' then ''+''
      else if urlencoded_safe c then [c]
      else [CHR ''%'', hex_digit (of_char c div 16), hex_digit (of_char c mod 16)])"

definition byte_serialize :: "string \<Rightarrow> string" where
  "byte_serialize s = concat (map byte_serialize_char s)"

text \<open>\<^verbatim>\<open>Array.prototype.join\<close> on strings.\<close>

fun join :: "string \<Rightarrow> string list \<Rightarrow> string" where
  "join sep [] = []"
| "join sep [x] = x"
| "join sep (x # y # ys) = x @ sep @ join sep (y # ys)"

definition serialize_pair :: "string \<times> string \<Rightarrow> string" where
  "serialize_pair p = byte_serialize (fst p) @ ''='' @ byte_serialize (snd p)"

definition URLSearchParams_toString :: "params \<Rightarrow> string" where
  "URLSearchParams_toString ps = join ''&'' (map serialize_pair ps)"

text \<open>
  The three accessors of \<^verbatim>\<open>BoxIntegrationApp\<close>; \<open>search\<close> is
  \<^verbatim>\<open>window.location.search\<close>.
  \<^verbatim>\<open>
    getParameter(key) { const urlParams = new URLSearchParams(window.location.search);
                        return urlParams.get(key); }
    hasParameter(key) { ... return urlParams.has(key); }
    getParametersObject() { ... const params = {};
        for (const [key, value] of urlParams.entries()) { params[key] = value; }
        return params; }
  \<close>
  The object \<^verbatim>\<open>params\<close> is the map of its own properties. An assignment to the key
  \<^verbatim>\<open>__proto__\<close> of a plain object runs the prototype setter, which ignores a string,
  and creates no property.
\<close>

definition getParameter :: "string \<Rightarrow> string \<Rightarrow> string option" where
  "getParameter search key = URLSearchParams_get (URLSearchParams search) key"

definition hasParameter :: "string \<Rightarrow> string \<Rightarrow> bool" where
  "hasParameter search key = URLSearchParams_has (URLSearchParams search) key"

definition object_set :: "(string \<rightharpoonup> string) \<Rightarrow> string \<Rightarrow> string \<Rightarrow> (string \<rightharpoonup> string)" where
  "object_set obj key v = (if key = ''__proto__'' then obj else obj(key \<mapsto> v))"

definition getParametersObject :: "string \<Rightarrow> (string \<rightharpoonup> string)" where
  "getParametersObject search =
     fold (\<lambda>(key, v) obj. object_set obj key v) (URLSearchParams search) Map.empty"

section \<open>Values shared by the scripts\<close>

text \<open>
  A thrown JavaScript exception; the handlers of the scripts read its \<^verbatim>\<open>message\<close>
  only.
\<close>

datatype error = Error (message: string)

text \<open>
  The JSON bodies of the Box API, restricted to the keys the scripts read, each with the
  type Box documents for it and each optional (\<open>None\<close> is an absent key, which
  JavaScript reads as \<^verbatim>\<open>undefined\<close>). The field \<open>j_k\<close> is the key \<^verbatim>\<open>k\<close>. Byte counts and
  comment counts are non-negative integers.
\<close>

datatype owned_by_json = OwnedBy (owner_name: "string option")

datatype file_version_json = FileVersion (version_number: "string option")

datatype shared_link_json = SharedLink (url: "string option")

record json_body =
  j_access_token :: "string option"
  j_error_description :: "string option"
  j_error :: "string option"
  j_message :: "string option"
  j_id :: "string option"
  j_name :: "string option"
  j_size :: "nat option"
  j_type :: "string option"
  j_created_at :: "string option"
  j_modified_at :: "string option"
  j_description :: "string option"
  j_sha1 :: "string option"
  j_extension :: "string option"
  j_comment_count :: "nat option"
  j_has_collaborations :: "bool option"
  j_is_externally_owned :: "bool option"
  j_tags :: "string list option"
  j_owned_by :: "owned_by_json option"
  j_file_version :: "file_version_json option"
  j_shared_link :: "shared_link_json option"

text \<open>The JSON object \<^verbatim>\<open>{}\<close>.\<close>

definition empty_json :: json_body where
  "empty_json =
     \<lparr>j_access_token = None, j_error_description = None, j_error = None, j_message = None,
      j_id = None, j_name = None, j_size = None, j_type = None, j_created_at = None,
      j_modified_at = None, j_description = None, j_sha1 = None, j_extension = None,
      j_comment_count = None, j_has_collaborations = None, j_is_externally_owned = None,
      j_tags = None, j_owned_by = None, j_file_version = None, j_shared_link = None\<rparr>"

text \<open>
  Truthiness of an optional string, \<^verbatim>\<open>a || b\<close> on optional strings, and the text a
  template literal prints for one.
\<close>

definition truthy :: "string option \<Rightarrow> bool" where
  "truthy v = (case v of None \<Rightarrow> False | Some s \<Rightarrow> s \<noteq> [])"

definition js_or :: "string option \<Rightarrow> string option \<Rightarrow> string option" where
  "js_or a b = (if truthy a then a else b)"

definition js_text :: "string option \<Rightarrow> string" where
  "js_text v = (case v of None \<Rightarrow> ''undefined'' | Some s \<Rightarrow> s)"

text \<open>Lines of the console: a message, a message with a JSON body, an error report.\<close>

datatype console_entry =
    ConsoleLog string
  | ConsoleLogData string json_body
  | ConsoleError string error

section \<open>HTML escaping and the parameter list\<close>

text \<open>\<^verbatim>\<open>String.prototype.includes\<close>: the second string occurs in the first.\<close>

fun string_includes :: "string \<Rightarrow> string \<Rightarrow> bool" where
  "string_includes [] needle = (needle = [])"
| "string_includes (c # cs) needle = (prefix needle (c # cs) \<or> string_includes cs needle)"

text \<open>
  \<^verbatim>\<open>
    escapeHtml(text) {
        const div = document.createElement('div');
        div.textContent = text;
        return div.innerHTML;
    }
  \<close>
  The text becomes one text node, and \<^verbatim>\<open>innerHTML\<close> serializes it: the HTML fragment
  serialization replaces \<^verbatim>\<open>&\<close>, \<^verbatim>\<open><\<close>, \<^verbatim>\<open>>\<close> and the no-break space (the bytes
  \<open>C2 A0\<close> in UTF-8) of a text node by their entities, and nothing else; quotes stay.
\<close>

definition escape_char :: "char \<Rightarrow> string" where
  "escape_char c =
     (if c = CHR ''&'' then ''&amp;''
      else if c = CHR ''<'' then ''&lt;''
      else if c = CHR ''>'' then ''&gt;''
      else [c])"

fun escapeHtml :: "string \<Rightarrow> string" where
  "escapeHtml [] = []"
| "escapeHtml [c] = escape_char c"
| "escapeHtml (c # d # cs) =
     (if c = CHR 0xC2 \<and> d = CHR 0xA0 then ''&nbsp;'' @ escapeHtml cs
      else escape_char c @ escapeHtml (d # cs))"

text \<open>
  \<^verbatim>\<open>
    createParameterItem(key, value) {
        return `
            <div class="parameter-item">
                <span class="parameter-name">${this.escapeHtml(key)}:</span>
                <span class="parameter-value">${this.escapeHtml(value)}</span>
                <button class="copy-button" onclick="boxApp.copyToClipboard('${this.escapeHtml(key)}')">Copy</button>
            </div>
        `;
    }
  \<close>
  The line breaks and the indentation of the template are part of the string.
\<close>

definition nl :: string where
  "nl = [CHR 0x0A]"

definition indent :: "nat \<Rightarrow> string" where
  "indent n = replicate n CHR '' ''"

definition createParameterItem :: "string \<Rightarrow> string \<Rightarrow> string" where
  "createParameterItem key val =
     nl @ indent 12 @ ''<div class=\"parameter-item\">'' @
     nl @ indent 16 @ ''<span class=\"parameter-name\">'' @ escapeHtml key @ '':</span>'' @
     nl @ indent 16 @ ''<span class=\"parameter-value\">'' @ escapeHtml val @ ''</span>'' @
     nl @ indent 16 @ ''<button class=\"copy-button\" onclick=\"boxApp.copyToClipboard('' @ [CHR 0x27] @
       escapeHtml key @ [CHR 0x27] @ '')\">Copy</button>'' @
     nl @ indent 12 @ ''</div>'' @
     nl @ indent 8"

section \<open>Copying to the clipboard\<close>

text \<open>
  The state that \<^verbatim>\<open>copyToClipboard\<close> reads and writes. The scripts name \<^verbatim>\<open>event\<close>
  without declaring it, so it is the global \<^verbatim>\<open>window.event\<close>: the event the window is
  dispatching, and \<^verbatim>\<open>undefined\<close> when none is. \<open>window_event\<close> is the target of that
  event, the button that was clicked, or \<open>None\<close> when no event is being dispatched.
  \<open>timers\<close> are the callbacks handed to \<^verbatim>\<open>setTimeout\<close>, each with its delay in
  milliseconds and the label and background it will restore.
\<close>

datatype button = Button (textContent: string) (background: string)

datatype timer = Timer (delay: nat) (restore_text: string) (restore_background: string)

record clip_state =
  window_event :: "button option"
  clipboard :: "string option"
  timers :: "timer list"
  alerts :: "string list"
  clip_console :: "console_entry list"

text \<open>
  The environment of one call: the location of the page, and whether
  \<^verbatim>\<open>navigator.clipboard.writeText\<close> resolves or rejects (with which error).
\<close>

record clip_env =
  location_href :: string
  location_search :: string
  writeText_rejects :: "error option"

text \<open>
  \<^verbatim>\<open>
    showCopyFeedback(button) {
        const originalText = button.textContent;
        const originalBackground = button.style.background;
        button.textContent = 'Copied!';
        button.style.background = '#28a745';
        setTimeout(() => {
            button.textContent = originalText;
            button.style.background = originalBackground || '#667eea';
        }, 1000);
    }
    showError(message) { alert(message); }
  \<close>
\<close>

definition showCopyFeedback :: "button \<Rightarrow> clip_state \<Rightarrow> clip_state" where
  "showCopyFeedback b st =
     st\<lparr>window_event := Some (Button ''Copied!'' ''#28a745''),
        timers := timers st @
          [Timer 1000 (textContent b)
             (if background b = [] then ''#667eea'' else background b)]\<rparr>"

definition showError :: "string \<Rightarrow> clip_state \<Rightarrow> clip_state" where
  "showError msg st = st\<lparr>alerts := alerts st @ [msg]\<rparr>"

text \<open>
  The promise chain
  \<^verbatim>\<open>
    navigator.clipboard.writeText(textToCopy).then(() => {
        this.showCopyFeedback(event.target);
    }).catch(err => {
        console.error('Failed to copy text: ', err);
        this.showError('Failed to copy to clipboard');
    });
  \<close>
  A rejected write, and an exception of the \<^verbatim>\<open>then\<close> callback, both reach the
  \<^verbatim>\<open>catch\<close> handler. The promise of \<^verbatim>\<open>writeText\<close> settles in a later task, when the
  dispatch of the click is over: the callbacks run in a state where no event is being
  dispatched. There \<^verbatim>\<open>event.target\<close> throws a \<^verbatim>\<open>TypeError\<close> (given the message V8
  gives it).
\<close>

definition copy_failed :: "error \<Rightarrow> clip_state \<Rightarrow> clip_state" where
  "copy_failed err st =
     showError ''Failed to copy to clipboard''
       (st\<lparr>clip_console := clip_console st @ [ConsoleError ''Failed to copy text: '' err]\<rparr>)"

definition later_task :: "clip_state \<Rightarrow> clip_state" where
  "later_task st = st\<lparr>window_event := None\<rparr>"

definition then_callback :: "clip_state \<Rightarrow> clip_state" where
  "then_callback st =
     (case window_event st of
        None \<Rightarrow>
          copy_failed (Error ''Cannot read properties of undefined (reading 'target')'') st
      | Some b \<Rightarrow> showCopyFeedback b st)"

definition writeText_then_feedback :: "clip_env \<Rightarrow> string \<Rightarrow> clip_state \<Rightarrow> clip_state" where
  "writeText_then_feedback env textToCopy st =
     (case writeText_rejects env of
        Some err \<Rightarrow> copy_failed err (later_task st)
      | None \<Rightarrow> then_callback (later_task (st\<lparr>clipboard := Some textToCopy\<rparr>)))"

text \<open>
  \<^verbatim>\<open>urlParams.get(elementId) || ''\<close>: \<^verbatim>\<open>null\<close> and the empty string both give the
  empty string.
\<close>

definition get_or_empty :: "string option \<Rightarrow> string" where
  "get_or_empty v = (case v of None \<Rightarrow> [] | Some s \<Rightarrow> s)"

text \<open>
  The first two scripts of \<^verbatim>\<open>app.js\<close> (lines 69-85 and 261-277):
  \<^verbatim>\<open>
    copyToClipboard(elementId) {
        let textToCopy;
        if (elementId === 'current-url') {
            textToCopy = window.location.href;
        } else {
            const urlParams = new URLSearchParams(window.location.search);
            textToCopy = urlParams.get(elementId) || '';
        }
        navigator.clipboard.writeText(textToCopy).then(...).catch(...);
    }
  \<close>
\<close>

definition copyToClipboard :: "clip_env \<Rightarrow> string \<Rightarrow> clip_state \<Rightarrow> clip_state" where
  "copyToClipboard env elementId st =
     (let textToCopy =
        (if elementId = ''current-url'' then location_href env
         else get_or_empty (URLSearchParams_get (URLSearchParams (location_search env)) elementId))
      in writeText_then_feedback env textToCopy st)"


section \<open>Requests to the Box API\<close>

text \<open>
  A request as \<^verbatim>\<open>fetch\<close> sends it; the body is the list of form fields of a
  \<^verbatim>\<open>URLSearchParams\<close> object, absent on a \<^verbatim>\<open>GET\<close>. A response has its status and the
  outcome of \<^verbatim>\<open>response.json()\<close>: the parsed body, or the exception raised when the
  body is not JSON. \<^verbatim>\<open>response.ok\<close> is a status from 200 to 299.
\<close>

datatype request =
  Request (req_method: string) (req_url: string)
    (req_headers: "(string \<times> string) list") (req_body: "(string \<times> string) list option")

datatype response = Response (status: nat) (json: "error + json_body")

definition ok :: "response \<Rightarrow> bool" where
  "ok r = (200 \<le> status r \<and> status r \<le> 299)"

text \<open>
  \<^verbatim>\<open>fetch\<close> either rejects (no response) or resolves with a response. The upstream
  decides from the requests it has seen so far and the request at hand. Every call
  settles: a request that never completes is outside this model.
\<close>

datatype fetch_outcome = Rejected error | Resolved response

type_synonym upstream = "request list \<Rightarrow> request \<Rightarrow> fetch_outcome"

text \<open>
  The page as the fetch action sees it: the fetch button, the container it renders into,
  the console, and the requests sent so far. The page has both elements.
\<close>

record page =
  button_disabled :: bool
  button_text :: string
  container_html :: string
  console :: "console_entry list"
  requests :: "request list"

definition console_log :: "console_entry \<Rightarrow> page \<Rightarrow> page" where
  "console_log e st = st\<lparr>console := console st @ [e]\<rparr>"

definition fetch :: "upstream \<Rightarrow> request \<Rightarrow> page \<Rightarrow> fetch_outcome \<times> page" where
  "fetch up req st = (up (requests st) req, st\<lparr>requests := requests st @ [req]\<rparr>)"

subsection \<open>Token acquisition with two grant shapes\<close>

text \<open>
  \<^verbatim>\<open>getAccessToken(clientId, clientSecret)\<close> of the second script (lines 439-489) and
  of the file-listing script:
  \<^verbatim>\<open>
    const authMethods = [
        { grant_type: 'client_credentials', client_id: clientId, client_secret: clientSecret },
        { grant_type: 'client_credentials', client_id: clientId, client_secret: clientSecret,
          box_subject_type: 'enterprise' } ];
    for (let i = 0; i < authMethods.length; i++) {
        try {
            console.log(`Trying authentication method ${i + 1}...`);
            const response = await fetch('https://api.box.com/oauth2/token', {
                method: 'POST',
                headers: { 'Content-Type': 'application/x-www-form-urlencoded', },
                body: new URLSearchParams(authMethods[i]) });
            if (response.ok) {
                const tokenData = await response.json();
                console.log(`Authentication method ${i + 1} successful`);
                return tokenData;
            } else {
                const errorData = await response.json();
                console.log(`Authentication method ${i + 1} failed:`, errorData);
                if (i === authMethods.length - 1) {
                    throw new Error(`Token request failed: ${response.status} - ${errorData.error_description || errorData.error}`);
                }
            }
        } catch (error) {
            if (i === authMethods.length - 1) { throw error; }
        }
    }
  \<close>
\<close>

definition authMethods :: "string \<Rightarrow> string \<Rightarrow> (string \<times> string) list list" where
  "authMethods clientId clientSecret =
     [ [(''grant_type'', ''client_credentials''), (''client_id'', clientId),
       (''client_secret'', clientSecret)],
      [(''grant_type'', ''client_credentials''), (''client_id'', clientId),
       (''client_secret'', clientSecret), (''box_subject_type'', ''enterprise'')]]"

definition token_request :: "(string \<times> string) list \<Rightarrow> request" where
  "token_request form =
     Request ''POST'' ''https://api.box.com/oauth2/token''
       [(''Content-Type'', ''application/x-www-form-urlencoded'')] (Some form)"

text \<open>How a \<^verbatim>\<open>try\<close> block ends: it falls through, returns a value, or throws.\<close>

datatype 'a completion = Normal | Return 'a | Throw error

definition token_failed_message :: "response \<Rightarrow> json_body \<Rightarrow> string" where
  "token_failed_message r errorData =
     ''Token request failed: '' @ nat_toString (status r) @ '' - '' @
     js_text (js_or (j_error_description errorData) (j_error errorData))"

text \<open>The \<^verbatim>\<open>try\<close> block of iteration \<open>i\<close>.\<close>

definition token_attempt ::
  "upstream \<Rightarrow> (string \<times> string) list list \<Rightarrow> nat \<Rightarrow> page \<Rightarrow> json_body completion \<times> page" where
  "token_attempt up methods i st =
     (let st1 = console_log
            (ConsoleLog (''Trying authentication method '' @ nat_toString (i + 1) @ ''...'')) st;
          (out, st2) = fetch up (token_request (methods ! i)) st1
      in case out of
           Rejected e \<Rightarrow> (Throw e, st2)
         | Resolved r \<Rightarrow>
            (if ok r then
               (case json r of
                  Inl e \<Rightarrow> (Throw e, st2)
                | Inr tokenData \<Rightarrow>
                   (Return tokenData,
                    console_log (ConsoleLog (''Authentication method '' @ nat_toString (i + 1)
                      @ '' successful'')) st2))
             else
               (case json r of
                  Inl e \<Rightarrow> (Throw e, st2)
                | Inr errorData \<Rightarrow>
                   (let st3 = console_log (ConsoleLogData (''Authentication method ''
                          @ nat_toString (i + 1) @ '' failed:'') errorData) st2
                    in if i = length methods - 1
                       then (Throw (Error (token_failed_message r errorData)), st3)
                       else (Normal, st3)))))"

text \<open>
  The loop. The result is the thrown error, or the returned value; the function returns
  \<^verbatim>\<open>undefined\<close> (\<open>None\<close>) when the loop ends without a \<^verbatim>\<open>return\<close>.
\<close>

function getAccessToken_loop ::
  "upstream \<Rightarrow> (string \<times> string) list list \<Rightarrow> nat \<Rightarrow> page
     \<Rightarrow> (error + json_body option) \<times> page" where
  "getAccessToken_loop up methods i st =
     (if i < length methods then
        (case token_attempt up methods i st of
           (Return tokenData, st') \<Rightarrow> (Inr (Some tokenData), st')
         | (Throw e, st') \<Rightarrow>
             (if i = length methods - 1 then (Inl e, st')
              else getAccessToken_loop up methods (i + 1) st')
         | (Normal, st') \<Rightarrow> getAccessToken_loop up methods (i + 1) st')
      else (Inr None, st))"
  by pat_completeness auto
termination
  by (relation "measure (\<lambda>(up, methods, i, st). length methods - i)") auto

declare getAccessToken_loop.simps [simp del]

definition getAccessToken ::
  "upstream \<Rightarrow> string \<Rightarrow> string \<Rightarrow> page \<Rightarrow> (error + json_body option) \<times> page" where
  "getAccessToken up clientId clientSecret st =
     getAccessToken_loop up (authMethods clientId clientSecret) 0 st"

subsection \<open>Fetching one file\<close>

text \<open>
  \<^verbatim>\<open>getFileMetadata(fileId, accessToken)\<close> of the second script (lines 494-509) and of
  the file-listing script; \<^verbatim>\<open>this.boxApiBase\<close> is \<^verbatim>\<open>https://api.box.com/2.0\<close>.
  \<^verbatim>\<open>
    const response = await fetch(`${this.boxApiBase}/files/${fileId}`, {
        method: 'GET',
        headers: { 'Authorization': `Bearer ${accessToken}`,
                   'Content-Type': 'application/json' } });
    if (!response.ok) {
        const errorData = await response.json();
        throw new Error(`File metadata request failed: ${response.status} - ${errorData.message || errorData.error}`);
    }
    return await response.json();
  \<close>
\<close>

definition boxApiBase :: string where
  "boxApiBase = ''https://api.box.com/2.0''"

definition file_request :: "string \<Rightarrow> string \<Rightarrow> request" where
  "file_request fileId accessToken =
     Request ''GET'' (boxApiBase @ ''/files/'' @ fileId)
       [(''Authorization'', ''Bearer '' @ accessToken), (''Content-Type'', ''application/json'')]
       None"

definition getFileMetadata ::
  "upstream \<Rightarrow> string \<Rightarrow> string \<Rightarrow> page \<Rightarrow> (error + json_body) \<times> page" where
  "getFileMetadata up fileId accessToken st =
     (let (out, st1) = fetch up (file_request fileId accessToken) st
      in case out of
           Rejected e \<Rightarrow> (Inl e, st1)
         | Resolved r \<Rightarrow>
            (if \<not> ok r then
               (case json r of
                  Inl e \<Rightarrow> (Inl e, st1)
                | Inr errorData \<Rightarrow>
                   (Inl (Error (''File metadata request failed: '' @ nat_toString (status r)
                      @ '' - '' @ js_text (js_or (j_message errorData) (j_error errorData)))),
                    st1))
             else (json r, st1)))"

section \<open>The fetch action\<close>

text \<open>
  \<^verbatim>\<open>showMetadataError(message)\<close> of the second script and \<^verbatim>\<open>showFilesError(message)\<close> of
  the third write the same markup into the container of their script:
  \<^verbatim>\<open>container.innerHTML = `<div class="error">${this.escapeHtml(message)}</div>`;\<close>
\<close>

definition error_html :: "string \<Rightarrow> string" where
  "error_html msg = ''<div class=\"error\">'' @ escapeHtml msg @ ''</div>''"

definition showMetadataError :: "string \<Rightarrow> page \<Rightarrow> page" where
  "showMetadataError msg st = st\<lparr>container_html := error_html msg\<rparr>"

definition showFilesError :: "string \<Rightarrow> page \<Rightarrow> page" where
  "showFilesError msg st = st\<lparr>container_html := error_html msg\<rparr>"

definition file_id_required :: string where
  "file_id_required = ''File ID is required. Please add file_id parameter to the URL.''"

definition credentials_required :: string where
  "credentials_required =
     ''Client ID and Client Secret are required. Please add client_id and client_secret parameters to the URL.''"

text \<open>
  The thrown \<^verbatim>\<open>TypeError\<close> of \<^verbatim>\<open>tokenResponse.access_token\<close> on \<^verbatim>\<open>undefined\<close>.
\<close>

definition undefined_token_error :: error where
  "undefined_token_error =
     Error ''Cannot read properties of undefined (reading 'access_token')''"

definition no_token_error :: "json_body \<Rightarrow> error" where
  "no_token_error tokenResponse =
     Error (''Failed to get access token: '' @
       js_text (js_or (j_error_description tokenResponse) (Some ''Unknown error'')))"

subsection \<open>Second script: fetch one file with the two-shape token\<close>

text \<open>
  \<^verbatim>\<open>fetchFileMetadata()\<close> of the second script (lines 376-434):
  \<^verbatim>\<open>
    const fileId = this.getParameter('file_id');
    const clientId = this.getParameter('client_id');
    const clientSecret = this.getParameter('client_secret');
    if (!fileId) { this.showMetadataError('File ID is required. ...'); return; }
    if (!clientId || !clientSecret) { this.showMetadataError('Client ID and ...'); return; }
    const button = document.getElementById('fetch-metadata-btn');
    const container = document.getElementById('metadata-container');
    button.disabled = true;
    button.textContent = '... Fetching...';
    container.innerHTML = '<div class="loading">Fetching file metadata from Box API...</div>';
    try {
        const tokenResponse = await this.getAccessToken(clientId, clientSecret);
        if (!tokenResponse.access_token) {
            throw new Error('Failed to get access token: ' + (tokenResponse.error_description || 'Unknown error'));
        }
        console.log('Successfully obtained access token');
        const metadata = await this.getFileMetadata(fileId, tokenResponse.access_token);
        this.displayFileMetadata(metadata);
    } catch (error) {
        console.error('Error fetching file metadata:', error);
        let errorMessage = error.message;
        if (errorMessage.includes('box_subject_id')) { errorMessage = '...'; }
        else if (errorMessage.includes('401')) { errorMessage = '...'; }
        else if (errorMessage.includes('403')) { errorMessage = '...'; }
        else if (errorMessage.includes('404')) { errorMessage = '...'; }
        this.showMetadataError('Failed to fetch file metadata: ' + errorMessage);
    } finally {
        button.disabled = false;
        button.textContent = '... Fetch File Metadata';
    }
  \<close>
  The renderer \<^verbatim>\<open>displayFileMetadata\<close> of this script is a parameter \<open>render\<close>: it
  returns the markup it writes into the container, or the exception it throws. What is
  proved of the action holds for every renderer.
\<close>

definition loading_label_2 :: string where
  "loading_label_2 = [CHR 0xE2, CHR 0x80, CHR 0x9A, CHR 0xC3, CHR 0xA8, CHR 0xE2, CHR 0x89, CHR 0xA5] @
    '' Fetching...''"

definition idle_label_2 :: string where
  "idle_label_2 = [CHR 0xEF, CHR 0xA3, CHR 0xBF, CHR 0xC3, CHR 0xBC, CHR 0xC3, CHR 0xAE, CHR 0xC3, CHR 0xA7] @
    '' Fetch File Metadata''"

definition friendly_message_2 :: "string \<Rightarrow> string" where
  "friendly_message_2 errorMessage =
     (if string_includes errorMessage ''box_subject_id'' then
        ''Authentication error: Please check your Box application configuration. The app may need enterprise access or different authentication settings.''
      else if string_includes errorMessage ''401'' then
        ''Authentication failed: Please verify your client_id and client_secret are correct.''
      else if string_includes errorMessage ''403'' then
        ''Access denied: The application may not have permission to access this file or the Box API.''
      else if string_includes errorMessage ''404'' then
        ''File not found: The specified file_id does not exist or is not accessible.''
      else errorMessage)"

text \<open>The \<^verbatim>\<open>try\<close> block: the exception it throws, if any, and the page it leaves.\<close>

definition fetch_try_2 ::
  "upstream \<Rightarrow> (json_body \<Rightarrow> error + string) \<Rightarrow> string \<Rightarrow> string \<Rightarrow> string \<Rightarrow> page
     \<Rightarrow> error option \<times> page" where
  "fetch_try_2 up render fileId clientId clientSecret st =
     (case getAccessToken up clientId clientSecret st of
        (Inl e, st1) \<Rightarrow> (Some e, st1)
      | (Inr None, st1) \<Rightarrow> (Some undefined_token_error, st1)
      | (Inr (Some tokenResponse), st1) \<Rightarrow>
          (if \<not> truthy (j_access_token tokenResponse)
           then (Some (no_token_error tokenResponse), st1)
           else
             (let st2 = console_log (ConsoleLog ''Successfully obtained access token'') st1
              in case getFileMetadata up fileId (js_text (j_access_token tokenResponse)) st2 of
                   (Inl e, st3) \<Rightarrow> (Some e, st3)
                 | (Inr metadata, st3) \<Rightarrow>
                     (case render metadata of
                        Inl e \<Rightarrow> (Some e, st3)
                      | Inr html \<Rightarrow> (None, st3\<lparr>container_html := html\<rparr>)))))"

definition fetch_catch_2 :: "error \<Rightarrow> page \<Rightarrow> page" where
  "fetch_catch_2 e st =
     showMetadataError (''Failed to fetch file metadata: '' @ friendly_message_2 (message e))
       (console_log (ConsoleError ''Error fetching file metadata:'' e) st)"

definition fetchFileMetadata_2 ::
  "upstream \<Rightarrow> (json_body \<Rightarrow> error + string) \<Rightarrow> string \<Rightarrow> page \<Rightarrow> page" where
  "fetchFileMetadata_2 up render search st =
     (let fileId = getParameter search ''file_id'';
          clientId = getParameter search ''client_id'';
          clientSecret = getParameter search ''client_secret''
      in if \<not> truthy fileId then showMetadataError file_id_required st
         else if \<not> truthy clientId \<or> \<not> truthy clientSecret
           then showMetadataError credentials_required st
         else
           (let st1 = st\<lparr>button_disabled := True, button_text := loading_label_2,
                  container_html :=
                    ''<div class=\"loading\">Fetching file metadata from Box API...</div>''\<rparr>;
                (thrown, st2) = fetch_try_2 up render (js_text fileId) (js_text clientId)
                  (js_text clientSecret) st1;
                st3 = (case thrown of None \<Rightarrow> st2 | Some e \<Rightarrow> fetch_catch_2 e st2)
            in st3\<lparr>button_disabled := False, button_text := idle_label_2\<rparr>))"

subsection \<open>Third script: authorization-code token and the file card\<close>

text \<open>
  \<^verbatim>\<open>getAccessToken(clientId, clientSecret)\<close> of the third script (lines 900-926):
  \<^verbatim>\<open>
    const authCode = this.getParameter('auth_code');
    if (!authCode) { throw new Error('Authorization code is required. ...'); }
    const response = await fetch('https://api.box.com/oauth2/token', { method: 'POST',
        headers: { 'Content-Type': 'application/x-www-form-urlencoded', },
        body: new URLSearchParams({ grant_type: 'authorization_code', code: authCode,
            client_id: clientId, client_secret: clientSecret }) });
    if (!response.ok) {
        const errorData = await response.json();
        throw new Error(`Token request failed: ${response.status} - ${errorData.error_description || errorData.error}`);
    }
    return await response.json();
  \<close>
\<close>

definition getAccessToken_3 ::
  "upstream \<Rightarrow> string \<Rightarrow> string \<Rightarrow> string \<Rightarrow> page \<Rightarrow> (error + json_body) \<times> page" where
  "getAccessToken_3 up search clientId clientSecret st =
     (let authCode = getParameter search ''auth_code''
      in if \<not> truthy authCode then
           (Inl (Error ''Authorization code is required. Please ensure the auth_code parameter is present in the URL.''), st)
         else
           (let (out, st1) = fetch up
                  (token_request [(''grant_type'', ''authorization_code''),
                     (''code'', js_text authCode), (''client_id'', clientId),
                     (''client_secret'', clientSecret)]) st
            in case out of
                 Rejected e \<Rightarrow> (Inl e, st1)
               | Resolved r \<Rightarrow>
                  (if \<not> ok r then
                     (case json r of
                        Inl e \<Rightarrow> (Inl e, st1)
                      | Inr errorData \<Rightarrow> (Inl (Error (token_failed_message r errorData)), st1))
                   else (json r, st1))))"

text \<open>
  \<^verbatim>\<open>displayFileMetadata(file)\<close> of the third script (lines 1029-1090). The dates go
  through \<^verbatim>\<open>new Date(...).toLocaleString()\<close>, which depends on the locale of the browser
  and is the parameter \<open>toLocaleString\<close>. \<^verbatim>\<open>escapeHtml\<close> of \<^verbatim>\<open>undefined\<close> is the empty
  string.
  \<^verbatim>\<open>
    if (!file || !file.id) {
        container.innerHTML = '<div class="loading">No file metadata found or accessible.</div>';
        return;
    }
    const fileSize = file.size ? this.formatFileSize(file.size) : 'Unknown';
    const createdAt = file.created_at ? new Date(file.created_at).toLocaleString() : 'Unknown';
    const modifiedAt = file.modified_at ? new Date(file.modified_at).toLocaleString() : 'Unknown';
    const owner = file.owned_by ? file.owned_by.name : 'Unknown';
    const fileType = file.type || 'Unknown';
    const description = file.description || 'No description';
    const version = file.file_version ? file.file_version.version_number : 'Unknown';
    const sha1 = file.sha1 || 'Unknown';
    const extension = file.extension || 'None';
    const commentCount = file.comment_count || 0;
    const hasCollaborations = file.has_collaborations ? 'Yes' : 'No';
    const isExternallyOwned = file.is_externally_owned ? 'Yes' : 'No';
    const tags = file.tags && file.tags.length > 0 ? file.tags.join(', ') : 'None';
    const sharedLink = file.shared_link ? file.shared_link.url : 'None';
    let metadataHtml = `... ${this.escapeHtml(file.name)} ... ${file.id} ... ${sha1} ...`;
    container.innerHTML = metadataHtml;
  \<close>
\<close>

definition escapeHtml_opt :: "string option \<Rightarrow> string" where
  "escapeHtml_opt v = (case v of None \<Rightarrow> [] | Some s \<Rightarrow> escapeHtml s)"

definition fileSize :: "json_body \<Rightarrow> string" where
  "fileSize file =
     (case j_size file of
        None \<Rightarrow> ''Unknown''
      | Some n \<Rightarrow> if n = 0 then ''Unknown'' else formatFileSize n)"

definition date_or_unknown :: "(string \<Rightarrow> string) \<Rightarrow> string option \<Rightarrow> string" where
  "date_or_unknown toLocaleString v =
     (if truthy v then toLocaleString (js_text v) else ''Unknown'')"

definition owner :: "json_body \<Rightarrow> string option" where
  "owner file =
     (case j_owned_by file of None \<Rightarrow> Some ''Unknown'' | Some u \<Rightarrow> owner_name u)"

definition version :: "json_body \<Rightarrow> string" where
  "version file =
     (case j_file_version file of
        None \<Rightarrow> ''Unknown''
      | Some v \<Rightarrow> js_text (version_number v))"

definition commentCount :: "json_body \<Rightarrow> nat" where
  "commentCount file = (case j_comment_count file of None \<Rightarrow> 0 | Some n \<Rightarrow> n)"

definition yes_no :: "bool option \<Rightarrow> string" where
  "yes_no v = (if v = Some True then ''Yes'' else ''No'')"

definition tags :: "json_body \<Rightarrow> string" where
  "tags file =
     (case j_tags file of
        None \<Rightarrow> ''None''
      | Some ts \<Rightarrow> if length ts > 0 then join '', '' ts else ''None'')"

definition sharedLink :: "json_body \<Rightarrow> string option" where
  "sharedLink file =
     (case j_shared_link file of None \<Rightarrow> Some ''None'' | Some l \<Rightarrow> url l)"

definition shared_link_span :: "json_body \<Rightarrow> string" where
  "shared_link_span file =
     (if sharedLink file \<noteq> Some ''None'' then
        ''<span class=\"file-shared-link\">Shared Link: '' @ js_text (sharedLink file) @ ''</span>''
      else [])"

definition file_metadata_html :: "(string \<Rightarrow> string) \<Rightarrow> json_body \<Rightarrow> string" where
  "file_metadata_html toLocaleString file =
     nl @ indent 12 @ ''<div class=\"files-header\">'' @
     nl @ indent 16 @ ''<h3>'' @ [CHR 0xF0, CHR 0x9F, CHR 0x93, CHR 0x84] @
       '' File Metadata</h3>'' @
     nl @ indent 16 @ ''<p>Detailed information about the file</p>'' @
     nl @ indent 12 @ ''</div>'' @
     nl @ indent 12 @ ''<div class=\"file-item\">'' @
     nl @ indent 16 @ ''<div class=\"file-info\">'' @
     nl @ indent 20 @ ''<div class=\"file-name\">'' @ [CHR 0xF0, CHR 0x9F, CHR 0x93, CHR 0x84] @
       '' '' @ escapeHtml_opt (j_name file) @ ''</div>'' @
     nl @ indent 20 @ ''<div class=\"file-details\">'' @
     nl @ indent 24 @ ''<span class=\"file-id\">ID: '' @ js_text (j_id file) @ ''</span>'' @
     nl @ indent 24 @ ''<span class=\"file-size\">Size: '' @ fileSize file @ ''</span>'' @
     nl @ indent 24 @ ''<span class=\"file-type\">Type: '' @
       js_text (js_or (j_type file) (Some ''Unknown'')) @ ''</span>'' @
     nl @ indent 24 @ ''<span class=\"file-extension\">Extension: '' @
       js_text (js_or (j_extension file) (Some ''None'')) @ ''</span>'' @
     nl @ indent 24 @ ''<span class=\"file-version\">Version: '' @ version file @ ''</span>'' @
     nl @ indent 24 @ ''<span class=\"file-owner\">Owner: '' @ escapeHtml_opt (owner file) @
       ''</span>'' @
     nl @ indent 24 @ ''<span class=\"file-created\">Created: '' @
       date_or_unknown toLocaleString (j_created_at file) @ ''</span>'' @
     nl @ indent 24 @ ''<span class=\"file-modified\">Modified: '' @
       date_or_unknown toLocaleString (j_modified_at file) @ ''</span>'' @
     nl @ indent 24 @ ''<span class=\"file-comments\">Comments: '' @
       nat_toString (commentCount file) @ ''</span>'' @
     nl @ indent 24 @ ''<span class=\"file-collaborations\">Has Collaborations: '' @
       yes_no (j_has_collaborations file) @ ''</span>'' @
     nl @ indent 24 @ ''<span class=\"file-external\">Externally Owned: '' @
       yes_no (j_is_externally_owned file) @ ''</span>'' @
     nl @ indent 24 @ ''<span class=\"file-sha1\">SHA1: '' @
       js_text (js_or (j_sha1 file) (Some ''Unknown'')) @ ''</span>'' @
     nl @ indent 24 @ ''<span class=\"file-tags\">Tags: '' @ tags file @ ''</span>'' @
     nl @ indent 24 @ shared_link_span file @
     nl @ indent 20 @ ''</div>'' @
     nl @ indent 20 @ ''<div class=\"file-description\">'' @
     nl @ indent 24 @ ''<h4>Description:</h4>'' @
     nl @ indent 24 @ ''<p>'' @
       escapeHtml (js_text (js_or (j_description file) (Some ''No description''))) @ ''</p>'' @
     nl @ indent 20 @ ''</div>'' @
     nl @ indent 16 @ ''</div>'' @
     nl @ indent 16 @ ''<div class=\"file-actions\">'' @
     nl @ indent 20 @ ''<button class=\"copy-button\" onclick=\"boxApp.copyToClipboard('' @
       [CHR 0x27] @ ''file-id-'' @ js_text (j_id file) @ [CHR 0x27] @ '')\" data-file-id=\"'' @
       js_text (j_id file) @ ''\">'' @
     nl @ indent 24 @ ''Copy ID'' @
     nl @ indent 20 @ ''</button>'' @
     nl @ indent 16 @ ''</div>'' @
     nl @ indent 12 @ ''</div>'' @
     nl @ indent 8"

definition displayFileMetadata_3 :: "(string \<Rightarrow> string) \<Rightarrow> json_body \<Rightarrow> page \<Rightarrow> page" where
  "displayFileMetadata_3 toLocaleString file st =
     (if \<not> truthy (j_id file) then
        st\<lparr>container_html :=
          ''<div class=\"loading\">No file metadata found or accessible.</div>''\<rparr>
      else st\<lparr>container_html := file_metadata_html toLocaleString file\<rparr>)"

text \<open>
  \<^verbatim>\<open>fetchFileMetadata()\<close> of the third script (lines 821-895): the credentials are
  checked before the file id, the file is fetched inline, and the error of a non-success
  response has a last fallback:
  \<^verbatim>\<open>
    if (!clientId || !clientSecret) { this.showFilesError('Client ID and ...'); return; }
    if (!fileId) { this.showFilesError('File ID is required. ...'); return; }
    ...
    try {
        const tokenResponse = await this.getAccessToken(clientId, clientSecret);
        if (!tokenResponse.access_token) { throw new Error(...); }
        console.log('Successfully obtained access token');
        const response = await fetch(`${this.boxApiBase}/files/${fileId}`, {...});
        if (!response.ok) {
            const errorData = await response.json();
            throw new Error(`${response.status} - ${errorData.message || errorData.error || 'Unknown error'}`);
        }
        const fileData = await response.json();
        console.log('Successfully retrieved file metadata:', fileData);
        this.displayFileMetadata(fileData);
    } catch (error) { ... this.showFilesError('Failed to fetch file metadata: ' + errorMessage); }
    finally { button.disabled = false; button.textContent = '... Get File Metadata'; }
  \<close>
\<close>

definition loading_label_3 :: string where
  "loading_label_3 = [CHR 0xE2, CHR 0x8F, CHR 0xB3] @ '' Fetching...''"

definition idle_label_3 :: string where
  "idle_label_3 = [CHR 0xF0, CHR 0x9F, CHR 0x93, CHR 0x84] @ '' Get File Metadata''"

definition friendly_message_3 :: "string \<Rightarrow> string" where
  "friendly_message_3 errorMessage =
     (if string_includes errorMessage ''box_subject_id'' then
        ''Authentication error: Please check your Box application configuration.''
      else if string_includes errorMessage ''401'' then
        ''Authentication failed: Please verify your client_id and client_secret are correct.''
      else if string_includes errorMessage ''403'' then
        ''Access denied: The application may not have permission to access this file.''
      else if string_includes errorMessage ''404'' then
        ''File not found: The file may not exist or the application may not have access to it.''
      else if string_includes errorMessage ''400'' then
        ''Bad request: The API request format may be incorrect. Check console for details.''
      else errorMessage)"

definition file_error_3 :: "response \<Rightarrow> json_body \<Rightarrow> error" where
  "file_error_3 r errorData =
     Error (nat_toString (status r) @ '' - '' @
       js_text (js_or (js_or (j_message errorData) (j_error errorData)) (Some ''Unknown error'')))"

definition fetch_try_3 ::
  "upstream \<Rightarrow> (string \<Rightarrow> string) \<Rightarrow> string \<Rightarrow> string \<Rightarrow> string \<Rightarrow> string \<Rightarrow> page
     \<Rightarrow> error option \<times> page" where
  "fetch_try_3 up toLocaleString search fileId clientId clientSecret st =
     (case getAccessToken_3 up search clientId clientSecret st of
        (Inl e, st1) \<Rightarrow> (Some e, st1)
      | (Inr tokenResponse, st1) \<Rightarrow>
          (if \<not> truthy (j_access_token tokenResponse)
           then (Some (no_token_error tokenResponse), st1)
           else
             (let st2 = console_log (ConsoleLog ''Successfully obtained access token'') st1;
                  (out, st3) = fetch up
                    (file_request fileId (js_text (j_access_token tokenResponse))) st2
              in case out of
                   Rejected e \<Rightarrow> (Some e, st3)
                 | Resolved r \<Rightarrow>
                    (if \<not> ok r then
                       (case json r of
                          Inl e \<Rightarrow> (Some e, st3)
                        | Inr errorData \<Rightarrow> (Some (file_error_3 r errorData), st3))
                     else
                       (case json r of
                          Inl e \<Rightarrow> (Some e, st3)
                        | Inr fileData \<Rightarrow>
                           (None,
                            displayFileMetadata_3 toLocaleString fileData
                              (console_log (ConsoleLogData
                                 ''Successfully retrieved file metadata:'' fileData) st3)))))))"

definition fetch_catch_3 :: "error \<Rightarrow> page \<Rightarrow> page" where
  "fetch_catch_3 e st =
     showFilesError (''Failed to fetch file metadata: '' @ friendly_message_3 (message e))
       (console_log (ConsoleError ''Error fetching file metadata:'' e) st)"

definition fetchFileMetadata_3 ::
  "upstream \<Rightarrow> (string \<Rightarrow> string) \<Rightarrow> string \<Rightarrow> page \<Rightarrow> page" where
  "fetchFileMetadata_3 up toLocaleString search st =
     (let clientId = getParameter search ''client_id'';
          clientSecret = getParameter search ''client_secret'';
          fileId = getParameter search ''file_id''
      in if \<not> truthy clientId \<or> \<not> truthy clientSecret
           then showFilesError credentials_required st
         else if \<not> truthy fileId then showFilesError file_id_required st
         else
           (let st1 = st\<lparr>button_disabled := True, button_text := loading_label_3,
                  container_html :=
                    ''<div class=\"loading\">Fetching file metadata from Box API...</div>''\<rparr>;
                (thrown, st2) = fetch_try_3 up toLocaleString search (js_text fileId)
                  (js_text clientId) (js_text clientSecret) st1;
                st3 = (case thrown of None \<Rightarrow> st2 | Some e \<Rightarrow> fetch_catch_3 e st2)
            in st3\<lparr>button_disabled := False, button_text := idle_label_3\<rparr>))"

section \<open>Requests and states named in the properties\<close>

text \<open>The two token requests of the second script, written out.\<close>

definition plain_grant :: "string \<Rightarrow> string \<Rightarrow> request" where
  "plain_grant clientId clientSecret =
     Request ''POST'' ''https://api.box.com/oauth2/token''
       [(''Content-Type'', ''application/x-www-form-urlencoded'')]
       (Some [(''grant_type'', ''client_credentials''), (''client_id'', clientId),
              (''client_secret'', clientSecret)])"

definition enterprise_grant :: "string \<Rightarrow> string \<Rightarrow> request" where
  "enterprise_grant clientId clientSecret =
     Request ''POST'' ''https://api.box.com/oauth2/token''
       [(''Content-Type'', ''application/x-www-form-urlencoded'')]
       (Some [(''grant_type'', ''client_credentials''), (''client_id'', clientId),
              (''client_secret'', clientSecret), (''box_subject_type'', ''enterprise'')])"

text \<open>The state after a first attempt that got a non-success response.\<close>

definition after_first_failure :: "string \<Rightarrow> string \<Rightarrow> response \<Rightarrow> page \<Rightarrow> page" where
  "after_first_failure a b r1 st =
     (let st2 = st\<lparr>console := console st @ [ConsoleLog ''Trying authentication method 1...''],
                    requests := requests st @ [plain_grant a b]\<rparr>
      in case json r1 of
           Inl e \<Rightarrow> st2
         | Inr errorData \<Rightarrow>
             st2\<lparr>console := console st2 @
               [ConsoleLogData ''Authentication method 1 failed:'' errorData]\<rparr>)"

text \<open>A page in its idle state, with nothing logged and no request sent.\<close>

definition page0 :: page where
  "page0 = \<lparr>button_disabled = False, button_text = ''Fetch'', container_html = [],
            console = [], requests = []\<rparr>"

text \<open>The query parameters the fetch action requires.\<close>

definition required_parameters :: "string list" where
  "required_parameters = [''client_id'', ''client_secret'', ''file_id'']"

section \<open>Properties of the byte-size formatter\<close>

subsection \<open>The logarithm of two\<close>







subsection \<open>Rounding to the nearest double\<close>




























subsection \<open>The logarithms the formatter takes\<close>







































subsection \<open>Rounding to hundredths and printing\<close>










subsection \<open>The formatted string\<close>



















section \<open>Properties of the query parameters\<close>

subsection \<open>Splitting and joining\<close>

lemma split_on_not_Nil: "split_on d s \<noteq> []"
  by (induction s) (auto split: list.splits)

lemma split_on_no_delim: "d \<notin> set x \<Longrightarrow> split_on d x = [x]"
  by (induction x) auto

lemma split_on_append: "d \<notin> set x \<Longrightarrow> split_on d (x @ d # ys) = x # split_on d ys"
  by (induction x) (auto split: list.splits simp: split_on_not_Nil)

lemma split_on_join:
  assumes "\<forall>x \<in> set xs. d \<notin> set x" "xs \<noteq> []"
  shows "split_on d (join [d] xs) = xs"
  using assms
proof (induction xs rule: induct_list012)
  case 1
  then show ?case by simp
next
  case (2 x)
  then show ?case by (simp add: split_on_no_delim)
next
  case (3 x y zs)
  then show ?case by (simp add: split_on_append)
qed

subsection \<open>Percent-encoding\<close>

lemma of_char_hex_digit:
  "n < 16 \<Longrightarrow> (of_char (hex_digit n) :: nat) = (if n < 10 then 48 + n else 55 + n)"
  by (simp add: hex_digit_def)

lemma hex_value_hex_digit: "n < 16 \<Longrightarrow> hex_value (hex_digit n) = Some n"
  by (simp add: hex_value_def of_char_hex_digit Let_def)

lemma hex_digit_plain:
  assumes "n < 16"
  shows "hex_digit n \<notin> {CHR ''+'', CHR ''&'', CHR ''='', CHR ''%'', CHR ''?''}"
proof
  assume "hex_digit n \<in> {CHR ''+'', CHR ''&'', CHR ''='', CHR ''%'', CHR ''?''}"
  then have "(of_char (hex_digit n) :: nat)
      \<in> of_char ` {CHR ''+'', CHR ''&'', CHR ''='', CHR ''%'', CHR ''?''}"
    by (rule imageI)
  then show False
    using assms by (simp add: of_char_hex_digit split: if_splits)
qed

lemma urlencoded_safe_plain:
  "urlencoded_safe c \<Longrightarrow> c \<notin> {CHR ''+'', CHR ''&'', CHR ''='', CHR ''%'', CHR ''?''}"
  by (auto simp: urlencoded_safe_def)

lemma percent_decode_plain: "c \<noteq> CHR ''%'' \<Longrightarrow> percent_decode (c # t) = c # percent_decode t"
  by (cases t rule: percent_decode.cases) auto

lemma of_char_split: "16 * (of_char c div 16) + of_char c mod 16 = (of_char c :: nat)"
  by simp

lemma form_decode_serialize_char:
  "form_decode (byte_serialize_char c @ t) = c # form_decode t"
proof -
  have "(of_char c :: nat) < 16 * 16"
    using nat_of_char_less_256 [of c] by simp
  then have n: "(of_char c :: nat) div 16 < 16" "(of_char c :: nat) mod 16 < 16"
    by (simp_all add: less_mult_imp_div_less)
  consider "c = CHR '' ''" | "c \<noteq> CHR '' ''" "urlencoded_safe c"
    | "c \<noteq> CHR '' ''" "\<not> urlencoded_safe c" by blast
  then show ?thesis
  proof cases
    case 1
    then show ?thesis
      by (simp add: form_decode_def byte_serialize_char_def plus_to_space_def percent_decode_plain)
  next
    case 2
    with urlencoded_safe_plain [of c] show ?thesis
      by (simp add: form_decode_def byte_serialize_char_def plus_to_space_def percent_decode_plain)
  next
    case 3
    with hex_digit_plain [OF n(1)] hex_digit_plain [OF n(2)] show ?thesis
      by (simp add: form_decode_def byte_serialize_char_def plus_to_space_def
          hex_value_hex_digit [OF n(1)] hex_value_hex_digit [OF n(2)])
  qed
qed

lemma form_decode_Nil: "form_decode [] = []"
  by (simp add: form_decode_def)

lemma form_decode_serialize: "form_decode (byte_serialize s) = s"
  by (induction s) (simp_all add: byte_serialize_def form_decode_Nil form_decode_serialize_char)

lemma byte_serialize_char_plain:
  "set (byte_serialize_char c) \<inter> {CHR ''&'', CHR ''='', CHR ''?''} = {}"
proof -
  have "(of_char c :: nat) < 16 * 16"
    using nat_of_char_less_256 [of c] by simp
  then have n: "(of_char c :: nat) div 16 < 16" "(of_char c :: nat) mod 16 < 16"
    by (simp_all add: less_mult_imp_div_less)
  show ?thesis
    using urlencoded_safe_plain [of c] hex_digit_plain [OF n(1)] hex_digit_plain [OF n(2)]
    by (auto simp: byte_serialize_char_def)
qed

lemma byte_serialize_plain:
  "set (byte_serialize s) \<inter> {CHR ''&'', CHR ''='', CHR ''?''} = {}"
  using byte_serialize_char_plain by (induction s) (auto simp: byte_serialize_def)

lemma parse_pair_serialize_pair: "parse_pair (serialize_pair p) = p"
proof -
  obtain n v where p: "p = (n, v)" by (cases p)
  have ne: "CHR ''='' \<notin> set (byte_serialize n)"
    using byte_serialize_plain [of n] by auto
  have tw: "takeWhile (\<lambda>c. c \<noteq> CHR ''='') (byte_serialize n @ CHR ''='' # byte_serialize v)
      = byte_serialize n"
    using ne by (auto simp: takeWhile_append)
  have dw: "dropWhile (\<lambda>c. c \<noteq> CHR ''='') (byte_serialize n @ CHR ''='' # byte_serialize v)
      = CHR ''='' # byte_serialize v"
    using ne by (auto simp: dropWhile_append)
  show ?thesis
    using form_decode_serialize [of n] form_decode_serialize [of v]
    by (simp add: p parse_pair_def serialize_pair_def tw dw form_decode_def)
qed

lemma serialize_pair_no_amp: "CHR ''&'' \<notin> set (serialize_pair p)"
  using byte_serialize_plain [of "fst p"] byte_serialize_plain [of "snd p"]
  by (auto simp: serialize_pair_def)

lemma serialize_pair_not_Nil: "serialize_pair p \<noteq> []"
  by (simp add: serialize_pair_def)

lemma urlencoded_parse_toString: "urlencoded_parse (URLSearchParams_toString ps) = ps"
proof (cases "ps = []")
  case True
  then show ?thesis by (simp add: urlencoded_parse_def URLSearchParams_toString_def)
next
  case False
  have "split_on CHR ''&'' (join ''&'' (map serialize_pair ps)) = map serialize_pair ps"
    using False by (intro split_on_join) (auto simp: serialize_pair_no_amp)
  then show ?thesis
    by (simp add: urlencoded_parse_def URLSearchParams_toString_def serialize_pair_not_Nil
        parse_pair_serialize_pair filter_map comp_def map_idI)
qed

lemma serialize_pair_no_question: "take 1 (serialize_pair p) \<noteq> ''?''"
proof
  assume "take 1 (serialize_pair p) = ''?''"
  then have "CHR ''?'' \<in> set (take 1 (serialize_pair p))" by simp
  then have "CHR ''?'' \<in> set (serialize_pair p)" by (rule in_set_takeD)
  then show False
    using byte_serialize_plain [of "fst p"] byte_serialize_plain [of "snd p"]
    by (auto simp: serialize_pair_def)
qed

lemma toString_no_question: "take 1 (URLSearchParams_toString ps) \<noteq> ''?''"
proof (cases ps)
  case Nil
  then show ?thesis by (simp add: URLSearchParams_toString_def)
next
  case (Cons p qs)
  show ?thesis
  proof (cases qs)
    case Nil
    with Cons show ?thesis
      using serialize_pair_no_question [of p] by (simp add: URLSearchParams_toString_def)
  next
    case (Cons q rs)
    with \<open>ps = p # qs\<close> show ?thesis
      using serialize_pair_no_question [of p]
      by (cases "serialize_pair p") (simp_all add: URLSearchParams_toString_def)
  qed
qed

lemma URLSearchParams_toString_roundtrip:
  "URLSearchParams (URLSearchParams_toString ps) = ps"
  using toString_no_question [of ps]
  by (simp add: URLSearchParams_def urlencoded_parse_toString)

subsection \<open>Lookup\<close>

lemma URLSearchParams_get_first:
  "URLSearchParams_get ps key =
     (case filter (\<lambda>p. fst p = key) ps of [] \<Rightarrow> None | p # qs \<Rightarrow> Some (snd p))"
  by (induction ps key rule: URLSearchParams_get.induct) auto

lemma object_set_apply:
  "object_set obj k v key = (if k = key \<and> k \<noteq> ''__proto__'' then Some v else obj key)"
  by (simp add: object_set_def)

lemma fold_object_set_last:
  "key \<noteq> ''__proto__'' \<Longrightarrow>
   fold (\<lambda>(k, v) obj. object_set obj k v) ps obj key =
     (if filter (\<lambda>p. fst p = key) ps = [] then obj key
      else Some (snd (last (filter (\<lambda>p. fst p = key) ps))))"
proof (induction ps arbitrary: obj)
  case Nil
  then show ?case by simp
next
  case (Cons p ps)
  obtain k v where p: "p = (k, v)" by (cases p)
  have "fold (\<lambda>(k, v) obj. object_set obj k v) (p # ps) obj key
      = fold (\<lambda>(k, v) obj. object_set obj k v) ps (object_set obj k v) key"
    by (simp add: p)
  also have "\<dots> = (if filter (\<lambda>p. fst p = key) ps = [] then object_set obj k v key
      else Some (snd (last (filter (\<lambda>p. fst p = key) ps))))"
    by (rule Cons.IH [OF Cons.prems])
  finally have e: "fold (\<lambda>(k, v) obj. object_set obj k v) (p # ps) obj key
      = (if filter (\<lambda>p. fst p = key) ps = [] then object_set obj k v key
         else Some (snd (last (filter (\<lambda>p. fst p = key) ps))))" .
  show ?case
    unfolding e using Cons.prems by (simp add: p object_set_apply)
qed

lemma filter_key_not_Nil:
  "key \<in> fst ` set ps \<Longrightarrow> filter (\<lambda>p. fst p = key) ps \<noteq> []"
  by (auto simp: filter_empty_conv)

lemma getParameter_first:
  assumes "key \<in> fst ` set (URLSearchParams Q)"
  shows "getParameter Q key = Some (snd (hd (filter (\<lambda>p. fst p = key) (URLSearchParams Q))))"
  using filter_key_not_Nil [OF assms]
  by (simp add: getParameter_def URLSearchParams_get_first split: list.splits)

lemma getParametersObject_last:
  assumes "key \<in> fst ` set (URLSearchParams Q)" "key \<noteq> ''__proto__''"
  shows "getParametersObject Q key =
     Some (snd (last (filter (\<lambda>p. fst p = key) (URLSearchParams Q))))"
  using filter_key_not_Nil [OF assms(1)]
  by (simp add: getParametersObject_def fold_object_set_last [OF assms(2)])

lemma single_valued_hd:
  assumes "(key, v) \<in> set ps" "\<forall>w. (key, w) \<in> set ps \<longrightarrow> w = v"
  shows "snd (hd (filter (\<lambda>p. fst p = key) ps)) = v"
    and "snd (last (filter (\<lambda>p. fst p = key) ps)) = v"
proof -
  let ?f = "filter (\<lambda>p. fst p = key) ps"
  have ne: "?f \<noteq> []" using assms(1) by (force simp: filter_empty_conv)
  have all: "\<forall>p \<in> set ?f. p = (key, v)" using assms(2) by (auto simp: prod_eq_iff)
  have "hd ?f \<in> set ?f" "last ?f \<in> set ?f"
    using ne by (rule hd_in_set, rule last_in_set)
  with all show "snd (hd ?f) = v" "snd (last ?f) = v" by (metis snd_conv)+
qed

text \<open>
  Claim C9 says that of a duplicated key only the last value is kept, so that
  \<open>getParameter\<close> and \<open>getParametersObject\<close> agree on it. On the query string
  \<^verbatim>\<open>?a=1&a=2\<close> the lookup returns the first value and the object holds the last.
\<close>

theorem query_parameters_duplicate_counterexample:
  "URLSearchParams ''?a=1&a=2'' = [(''a'', ''1''), (''a'', ''2'')]
   \<and> getParameter ''?a=1&a=2'' ''a'' = Some ''1''
   \<and> getParametersObject ''?a=1&a=2'' ''a'' = Some ''2''
   \<and> getParameter ''?a=1&a=2'' ''a'' \<noteq> getParametersObject ''?a=1&a=2'' ''a''"
  by (simp add: getParameter_def getParametersObject_def object_set_def URLSearchParams_def
      urlencoded_parse_def parse_pair_def form_decode_def plus_to_space_def)

text \<open>
  Claim C9, amended. Parsing a serialized parameter list gives the list back, so parsing
  then serializing is idempotent. Every key present in the query string is found by
  \<open>hasParameter\<close> and \<open>getParameter\<close>, which returns the value of the key's first
  occurrence; \<open>getParametersObject\<close> holds the value of its last occurrence (for every key
  but \<^verbatim>\<open>__proto__\<close>, which a plain object does not store). The two agree on a key all
  of whose occurrences carry the same value.
\<close>

theorem query_parameters_retrievable:
  "URLSearchParams (URLSearchParams_toString (URLSearchParams Q)) = URLSearchParams Q
   \<and> URLSearchParams_toString (URLSearchParams (URLSearchParams_toString (URLSearchParams Q)))
       = URLSearchParams_toString (URLSearchParams Q)
   \<and> (key \<in> fst ` set (URLSearchParams Q) \<longrightarrow>
        hasParameter Q key
        \<and> getParameter Q key
            = Some (snd (hd (filter (\<lambda>p. fst p = key) (URLSearchParams Q))))
        \<and> (key \<noteq> ''__proto__'' \<longrightarrow>
             getParametersObject Q key
               = Some (snd (last (filter (\<lambda>p. fst p = key) (URLSearchParams Q))))))
   \<and> ((key, v) \<in> set (URLSearchParams Q)
        \<and> (\<forall>w. (key, w) \<in> set (URLSearchParams Q) \<longrightarrow> w = v) \<longrightarrow>
        getParameter Q key = Some v
        \<and> (key \<noteq> ''__proto__'' \<longrightarrow> getParametersObject Q key = Some v))"
proof (intro conjI impI)
  show "URLSearchParams (URLSearchParams_toString (URLSearchParams Q)) = URLSearchParams Q"
    by (rule URLSearchParams_toString_roundtrip)
  then show "URLSearchParams_toString
      (URLSearchParams (URLSearchParams_toString (URLSearchParams Q)))
      = URLSearchParams_toString (URLSearchParams Q)"
    by simp
next
  assume k: "key \<in> fst ` set (URLSearchParams Q)"
  show "hasParameter Q key"
    using k by (simp add: hasParameter_def URLSearchParams_has_def)
  show "getParameter Q key
      = Some (snd (hd (filter (\<lambda>p. fst p = key) (URLSearchParams Q))))"
    by (rule getParameter_first [OF k])
  assume "key \<noteq> ''__proto__''"
  then show "getParametersObject Q key
      = Some (snd (last (filter (\<lambda>p. fst p = key) (URLSearchParams Q))))"
    by (rule getParametersObject_last [OF k])
next
  assume a: "(key, v) \<in> set (URLSearchParams Q)
      \<and> (\<forall>w. (key, w) \<in> set (URLSearchParams Q) \<longrightarrow> w = v)"
  then have k: "key \<in> fst ` set (URLSearchParams Q)" by force
  from a have h: "snd (hd (filter (\<lambda>p. fst p = key) (URLSearchParams Q))) = v"
    and l: "snd (last (filter (\<lambda>p. fst p = key) (URLSearchParams Q))) = v"
    by (simp_all add: single_valued_hd)
  show "getParameter Q key = Some v"
    using getParameter_first [OF k] h by simp
  assume "key \<noteq> ''__proto__''"
  then show "getParametersObject Q key = Some v"
    using getParametersObject_last [OF k] l by simp
qed

text \<open>The hypotheses of the amended C9 hold for the keys \<^verbatim>\<open>a\<close> and \<^verbatim>\<open>b\<close> of
  \<^verbatim>\<open>?a=1&a=2&b=3\<close>: the first is duplicated, the second occurs once.\<close>

theorem query_parameters_retrievable_witness:
  "''a'' \<in> fst ` set (URLSearchParams ''?a=1&a=2&b=3'')
   \<and> ''a'' \<noteq> ''__proto__''
   \<and> getParameter ''?a=1&a=2&b=3'' ''a'' = Some ''1''
   \<and> getParametersObject ''?a=1&a=2&b=3'' ''a'' = Some ''2''
   \<and> (''b'', ''3'') \<in> set (URLSearchParams ''?a=1&a=2&b=3'')
   \<and> getParameter ''?a=1&a=2&b=3'' ''b'' = Some ''3''
   \<and> getParametersObject ''?a=1&a=2&b=3'' ''b'' = Some ''3''
   \<and> URLSearchParams_toString (URLSearchParams ''?a=1&a=2&b=3'') = ''a=1&a=2&b=3''"
  using query_parameters_retrievable [of "''?a=1&a=2&b=3''" "''a''" "''1''"]
    query_parameters_retrievable [of "''?a=1&a=2&b=3''" "''b''" "''3''"]
  by (simp add: URLSearchParams_def urlencoded_parse_def parse_pair_def form_decode_def
      plus_to_space_def URLSearchParams_toString_def serialize_pair_def byte_serialize_def
      byte_serialize_char_def urlencoded_safe_def)

section \<open>Properties of the clipboard copy\<close>




section \<open>Properties of the token acquisition and the file request\<close>

lemma length_authMethods: "length (authMethods clientId clientSecret) = 2"
  by (simp add: authMethods_def)

lemma token_request_authMethods:
  "token_request (authMethods a b ! 0) = plain_grant a b"
  "token_request (authMethods a b ! 1) = enterprise_grant a b"
  "token_request (authMethods a b ! Suc 0) = enterprise_grant a b"
  by (simp_all add: token_request_def authMethods_def plain_grant_def enterprise_grant_def)

lemma nat_toString_small:
  "nat_toString (Suc 0) = ''1''" "nat_toString 2 = ''2''" "nat_toString (Suc (Suc 0)) = ''2''"
  by (simp_all add: nat_toString.simps digit_char_def)

lemma first_attempt_fails:
  assumes "up (requests st) (plain_grant a b) = Resolved r1" "\<not> ok r1"
  shows "getAccessToken up a b st
     = getAccessToken_loop up (authMethods a b) 1 (after_first_failure a b r1 st)"
  unfolding getAccessToken_def
  apply (subst getAccessToken_loop.simps)
  using assms
  apply (simp add: length_authMethods token_attempt_def fetch_def console_log_def
      token_request_authMethods nat_toString_small after_first_failure_def Let_def
      split: sum.splits)
  done

lemma requests_after_first_failure:
  "requests (after_first_failure a b r1 st) = requests st @ [plain_grant a b]"
  by (simp add: after_first_failure_def Let_def split: sum.splits)

lemma second_attempt:
  assumes "up (requests st') (enterprise_grant a b) = Resolved r2"
  shows "getAccessToken_loop up (authMethods a b) 1 st' =
     (let st2 = st'\<lparr>console := console st' @ [ConsoleLog ''Trying authentication method 2...''],
                     requests := requests st' @ [enterprise_grant a b]\<rparr>
      in case json r2 of
           Inl e \<Rightarrow> (Inl e, st2)
         | Inr body \<Rightarrow>
            (if ok r2 then
               (Inr (Some body),
                st2\<lparr>console := console st2 @ [ConsoleLog ''Authentication method 2 successful'']\<rparr>)
             else
               (Inl (Error (token_failed_message r2 body)),
                st2\<lparr>console := console st2 @
                  [ConsoleLogData ''Authentication method 2 failed:'' body]\<rparr>)))"
  apply (subst getAccessToken_loop.simps)
  using assms
  apply (simp add: length_authMethods token_attempt_def fetch_def console_log_def
      token_request_authMethods nat_toString_small Let_def
      split: sum.splits)
  done

text \<open>
  The last iteration returns or throws, so the function never returns \<^verbatim>\<open>undefined\<close>.
\<close>

lemma last_attempt_not_Normal:
  "fst (token_attempt up methods (length methods - 1) st) \<noteq> Normal"
  by (simp add: token_attempt_def fetch_def Let_def
      split: fetch_outcome.splits sum.splits prod.splits)

lemma getAccessToken_defined: "fst (getAccessToken up a b st) \<noteq> Inr None"
proof -
  let ?M = "authMethods a b"
  have l: "length ?M - 1 = Suc 0" by (simp add: length_authMethods)
  have second: "fst (getAccessToken_loop up ?M (Suc 0) s) \<noteq> Inr None" for s
    using last_attempt_not_Normal [of up ?M s]
    by (subst getAccessToken_loop.simps)
      (auto simp: length_authMethods l split: completion.splits prod.splits)
  show ?thesis
    unfolding getAccessToken_def
    by (subst getAccessToken_loop.simps)
      (auto simp: length_authMethods second split: completion.splits prod.splits)
qed

text \<open>
  Claim C1. The attempts are issued in order, the plain client-credentials grant first and
  the grant with \<^verbatim>\<open>box_subject_type=enterprise\<close> second. When the first gets a
  non-success status and the second a success status, the function ends with the outcome
  of the second response's \<^verbatim>\<open>json()\<close>: it returns the parsed body (hence its token),
  and nothing of the first attempt is raised.
\<close>

theorem getAccessToken_fallback:
  "up (requests st) (plain_grant a b) = Resolved r1 \<and> \<not> ok r1
   \<and> up (requests st @ [plain_grant a b]) (enterprise_grant a b) = Resolved r2 \<and> ok r2
   \<longrightarrow>
     requests (snd (getAccessToken up a b st))
       = requests st @ [plain_grant a b, enterprise_grant a b]
     \<and> fst (getAccessToken up a b st)
       = (case json r2 of Inl e \<Rightarrow> Inl e | Inr tokenData \<Rightarrow> Inr (Some tokenData))
     \<and> (json r2 = Inr tokenData \<longrightarrow> fst (getAccessToken up a b st) = Inr (Some tokenData))"
proof (intro impI)
  assume h: "up (requests st) (plain_grant a b) = Resolved r1 \<and> \<not> ok r1
   \<and> up (requests st @ [plain_grant a b]) (enterprise_grant a b) = Resolved r2 \<and> ok r2"
  then have 1: "getAccessToken up a b st
     = getAccessToken_loop up (authMethods a b) 1 (after_first_failure a b r1 st)"
    by (intro first_attempt_fails) simp_all
  have 2: "up (requests (after_first_failure a b r1 st)) (enterprise_grant a b) = Resolved r2"
    using h by (simp add: requests_after_first_failure)
  show "requests (snd (getAccessToken up a b st))
       = requests st @ [plain_grant a b, enterprise_grant a b]
     \<and> fst (getAccessToken up a b st)
       = (case json r2 of Inl e \<Rightarrow> Inl e | Inr tokenData \<Rightarrow> Inr (Some tokenData))
     \<and> (json r2 = Inr tokenData \<longrightarrow> fst (getAccessToken up a b st) = Inr (Some tokenData))"
    using h unfolding 1 second_attempt [of up "after_first_failure a b r1 st" a b r2, OF 2]
    by (simp add: Let_def requests_after_first_failure split: sum.splits)
qed

text \<open>
  The hypotheses of C1 hold for an upstream that answers the plain grant with status 400
  and the enterprise grant with status 200 and a token.
\<close>

theorem getAccessToken_fallback_witness:
  "(\<lambda>hist req. if req = plain_grant ''id'' ''secret''
        then Resolved (Response 400 (Inr (empty_json\<lparr>j_error := Some ''invalid_grant''\<rparr>)))
        else Resolved (Response 200 (Inr (empty_json\<lparr>j_access_token := Some ''tok''\<rparr>))))
     (requests page0) (plain_grant ''id'' ''secret'')
     = Resolved (Response 400 (Inr (empty_json\<lparr>j_error := Some ''invalid_grant''\<rparr>)))
   \<and> \<not> ok (Response 400 (Inr (empty_json\<lparr>j_error := Some ''invalid_grant''\<rparr>)))
   \<and> ok (Response 200 (Inr (empty_json\<lparr>j_access_token := Some ''tok''\<rparr>)))
   \<and> fst (getAccessToken
        (\<lambda>hist req. if req = plain_grant ''id'' ''secret''
          then Resolved (Response 400 (Inr (empty_json\<lparr>j_error := Some ''invalid_grant''\<rparr>)))
          else Resolved (Response 200 (Inr (empty_json\<lparr>j_access_token := Some ''tok''\<rparr>))))
        ''id'' ''secret'' page0)
     = Inr (Some (empty_json\<lparr>j_access_token := Some ''tok''\<rparr>))"
  using getAccessToken_fallback [of
      "\<lambda>hist req. if req = plain_grant ''id'' ''secret''
          then Resolved (Response 400 (Inr (empty_json\<lparr>j_error := Some ''invalid_grant''\<rparr>)))
          else Resolved (Response 200 (Inr (empty_json\<lparr>j_access_token := Some ''tok''\<rparr>)))"
      page0 "''id''" "''secret''"
      "Response 400 (Inr (empty_json\<lparr>j_error := Some ''invalid_grant''\<rparr>))"
      "Response 200 (Inr (empty_json\<lparr>j_access_token := Some ''tok''\<rparr>))"
      "empty_json\<lparr>j_access_token := Some ''tok''\<rparr>"]
  by (simp add: ok_def plain_grant_def enterprise_grant_def)

text \<open>
  Claim C2. When both attempts get a non-success response and the last one has a JSON
  body, the function raises the error with the message
  \<^verbatim>\<open>Token request failed: <status> - <error_description or error>\<close> of the last
  attempt, verbatim. The failure of the first attempt is logged to the console (when
  its body is JSON) and is not part of what is raised.
\<close>

theorem getAccessToken_total_failure:
  "up (requests st) (plain_grant a b) = Resolved r1 \<and> \<not> ok r1
   \<and> up (requests st @ [plain_grant a b]) (enterprise_grant a b) = Resolved r2 \<and> \<not> ok r2
   \<and> json r2 = Inr errorData
   \<longrightarrow>
     fst (getAccessToken up a b st)
       = Inl (Error (''Token request failed: '' @ nat_toString (status r2) @ '' - '' @
           js_text (js_or (j_error_description errorData) (j_error errorData))))
     \<and> (j_error_description errorData = Some d \<and> d \<noteq> [] \<longrightarrow>
          fst (getAccessToken up a b st)
            = Inl (Error (''Token request failed: '' @ nat_toString (status r2) @ '' - '' @ d)))
     \<and> (j_error_description errorData = None \<and> j_error errorData = Some c \<longrightarrow>
          fst (getAccessToken up a b st)
            = Inl (Error (''Token request failed: '' @ nat_toString (status r2) @ '' - '' @ c)))
     \<and> (json r1 = Inr firstError \<longrightarrow>
          ConsoleLogData ''Authentication method 1 failed:'' firstError
            \<in> set (console (snd (getAccessToken up a b st))))
     \<and> requests (snd (getAccessToken up a b st))
          = requests st @ [plain_grant a b, enterprise_grant a b]"
proof (intro impI)
  assume h: "up (requests st) (plain_grant a b) = Resolved r1 \<and> \<not> ok r1
   \<and> up (requests st @ [plain_grant a b]) (enterprise_grant a b) = Resolved r2 \<and> \<not> ok r2
   \<and> json r2 = Inr errorData"
  then have 1: "getAccessToken up a b st
     = getAccessToken_loop up (authMethods a b) 1 (after_first_failure a b r1 st)"
    by (intro first_attempt_fails) simp_all
  have 2: "up (requests (after_first_failure a b r1 st)) (enterprise_grant a b) = Resolved r2"
    using h by (simp add: requests_after_first_failure)
  have 3: "json r1 = Inr firstError \<Longrightarrow>
      ConsoleLogData ''Authentication method 1 failed:'' firstError
        \<in> set (console (after_first_failure a b r1 st))"
    by (simp add: after_first_failure_def)
  show "fst (getAccessToken up a b st)
       = Inl (Error (''Token request failed: '' @ nat_toString (status r2) @ '' - '' @
           js_text (js_or (j_error_description errorData) (j_error errorData))))
     \<and> (j_error_description errorData = Some d \<and> d \<noteq> [] \<longrightarrow>
          fst (getAccessToken up a b st)
            = Inl (Error (''Token request failed: '' @ nat_toString (status r2) @ '' - '' @ d)))
     \<and> (j_error_description errorData = None \<and> j_error errorData = Some c \<longrightarrow>
          fst (getAccessToken up a b st)
            = Inl (Error (''Token request failed: '' @ nat_toString (status r2) @ '' - '' @ c)))
     \<and> (json r1 = Inr firstError \<longrightarrow>
          ConsoleLogData ''Authentication method 1 failed:'' firstError
            \<in> set (console (snd (getAccessToken up a b st))))
     \<and> requests (snd (getAccessToken up a b st))
          = requests st @ [plain_grant a b, enterprise_grant a b]"
    using h 3 unfolding 1 second_attempt [of up "after_first_failure a b r1 st" a b r2, OF 2]
    by (simp add: Let_def requests_after_first_failure token_failed_message_def
        js_or_def js_text_def truthy_def)
qed

text \<open>
  The hypotheses of C2 hold for an upstream that answers 400 and then 401 with an error
  description.
\<close>

theorem getAccessToken_total_failure_witness:
  "\<not> ok (Response 400 (Inr (empty_json\<lparr>j_error := Some ''invalid_grant''\<rparr>)))
   \<and> \<not> ok (Response 401 (Inr (empty_json\<lparr>j_error := Some ''invalid_client'',
         j_error_description := Some ''The client credentials are invalid''\<rparr>)))
   \<and> fst (getAccessToken
        (\<lambda>hist req. if req = plain_grant ''id'' ''secret''
          then Resolved (Response 400 (Inr (empty_json\<lparr>j_error := Some ''invalid_grant''\<rparr>)))
          else Resolved (Response 401 (Inr (empty_json\<lparr>j_error := Some ''invalid_client'',
            j_error_description := Some ''The client credentials are invalid''\<rparr>))))
        ''id'' ''secret'' page0)
     = Inl (Error ''Token request failed: 401 - The client credentials are invalid'')"
  using getAccessToken_total_failure [of
      "\<lambda>hist req. if req = plain_grant ''id'' ''secret''
          then Resolved (Response 400 (Inr (empty_json\<lparr>j_error := Some ''invalid_grant''\<rparr>)))
          else Resolved (Response 401 (Inr (empty_json\<lparr>j_error := Some ''invalid_client'',
            j_error_description := Some ''The client credentials are invalid''\<rparr>)))"
      page0 "''id''" "''secret''"
      "Response 400 (Inr (empty_json\<lparr>j_error := Some ''invalid_grant''\<rparr>))"
      "Response 401 (Inr (empty_json\<lparr>j_error := Some ''invalid_client'',
            j_error_description := Some ''The client credentials are invalid''\<rparr>))"
      "empty_json\<lparr>j_error := Some ''invalid_client'',
            j_error_description := Some ''The client credentials are invalid''\<rparr>"
      "''The client credentials are invalid''" "''invalid_client''"
      "empty_json\<lparr>j_error := Some ''invalid_grant''\<rparr>"]
  by (simp add: ok_def plain_grant_def enterprise_grant_def nat_toString.simps digit_char_def
      empty_json_def js_text_def js_or_def truthy_def)

text \<open>
  Claim C6 says that a non-success response of the single-file endpoint raises an error
  with the text of \<^verbatim>\<open>message\<close>, else of \<^verbatim>\<open>error\<close>, else the literal
  \<^verbatim>\<open>Unknown error\<close>. \<open>getFileMetadata\<close> has no last fallback: on a 404 whose body is
  \<^verbatim>\<open>{}\<close> the message ends with the text \<^verbatim>\<open>undefined\<close>. The inline fetch of the third
  script has the fallback.
\<close>

theorem getFileMetadata_no_fallback:
  "fst (getFileMetadata (\<lambda>hist req. Resolved (Response 404 (Inr empty_json))) ''42'' ''tok'' page0)
     = Inl (Error ''File metadata request failed: 404 - undefined'')"
  by (simp add: getFileMetadata_def fetch_def ok_def js_or_def js_text_def truthy_def
      empty_json_def nat_toString.simps digit_char_def)

lemma file_error_3_fallback:
  "file_error_3 (Response 404 (Inr empty_json)) empty_json = Error ''404 - Unknown error''"
  by (simp add: file_error_3_def js_or_def js_text_def truthy_def empty_json_def
      nat_toString.simps digit_char_def)

section \<open>Properties of the fetch action and the renderer\<close>

text \<open>The two messages, and the markup that renders them.\<close>

lemma messages_name_parameters:
  "string_includes file_id_required ''file_id''"
  "string_includes credentials_required ''client_id''"
  "string_includes credentials_required ''client_secret''"
  "string_includes file_id_required ''Please add''"
  "string_includes credentials_required ''Please add''"
  by (simp_all add: file_id_required_def credentials_required_def)

lemma error_html_messages:
  "error_html file_id_required = ''<div class=\"error\">'' @ file_id_required @ ''</div>''"
  "error_html credentials_required = ''<div class=\"error\">'' @ credentials_required @ ''</div>''"
  by (simp_all add: error_html_def file_id_required_def credentials_required_def
      escape_char_def)

lemma error_html_names_parameters:
  "string_includes (error_html file_id_required) ''file_id''"
  "string_includes (error_html credentials_required) ''client_id''"
  "string_includes (error_html credentials_required) ''client_secret''"
  "string_includes (error_html file_id_required) ''Please add''"
  "string_includes (error_html credentials_required) ''Please add''"
  by (simp_all add: error_html_def file_id_required_def credentials_required_def
      escape_char_def)

lemma early_return_2:
  assumes "\<not> (truthy (getParameter search ''file_id'') \<and> truthy (getParameter search ''client_id'')
      \<and> truthy (getParameter search ''client_secret''))"
  shows "fetchFileMetadata_2 up render search st =
     st\<lparr>container_html := error_html
       (if \<not> truthy (getParameter search ''file_id'') then file_id_required
        else credentials_required)\<rparr>"
  using assms by (auto simp: fetchFileMetadata_2_def showMetadataError_def Let_def)

lemma early_return_3:
  assumes "\<not> (truthy (getParameter search ''file_id'') \<and> truthy (getParameter search ''client_id'')
      \<and> truthy (getParameter search ''client_secret''))"
  shows "fetchFileMetadata_3 up toLocaleString search st =
     st\<lparr>container_html := error_html
       (if \<not> truthy (getParameter search ''client_id'')
          \<or> \<not> truthy (getParameter search ''client_secret'') then credentials_required
        else file_id_required)\<rparr>"
  using assms by (auto simp: fetchFileMetadata_3_def showFilesError_def Let_def)

lemma names_lacking:
  assumes "c = error_html m"
    and "error_html m = ''<div class=\"error\">'' @ m @ ''</div>''"
    and "q \<in> set required_parameters" and "\<not> truthy (getParameter search q)"
    and "string_includes m q" and "string_includes m ''Please add''"
    and "string_includes (error_html m) q" and "string_includes (error_html m) ''Please add''"
  shows "\<exists>q msg. q \<in> set required_parameters \<and> \<not> truthy (getParameter search q)
       \<and> c = ''<div class=\"error\">'' @ msg @ ''</div>''
       \<and> string_includes msg q \<and> string_includes msg ''Please add''
       \<and> string_includes c q \<and> string_includes c ''Please add''"
  using assms by (intro exI [of _ q] exI [of _ m]) (simp only: simp_thms)

lemmas names_file_id = names_lacking [where m = file_id_required and q = "''file_id''",
    OF _ error_html_messages(1) _ _ messages_name_parameters(1) messages_name_parameters(4)
      error_html_names_parameters(1) error_html_names_parameters(4)]

lemmas names_client_id = names_lacking [where m = credentials_required and q = "''client_id''",
    OF _ error_html_messages(2) _ _ messages_name_parameters(2) messages_name_parameters(5)
      error_html_names_parameters(2) error_html_names_parameters(5)]

lemmas names_client_secret = names_lacking [where m = credentials_required
    and q = "''client_secret''",
    OF _ error_html_messages(2) _ _ messages_name_parameters(3) messages_name_parameters(5)
      error_html_names_parameters(3) error_html_names_parameters(5)]

text \<open>
  Claim C5. When a required parameter (\<^verbatim>\<open>client_id\<close>, \<^verbatim>\<open>client_secret\<close> or
  \<^verbatim>\<open>file_id\<close>) is absent from the query string, or empty, the fetch action of either
  script sends no request, and what it writes into the container is the markup
  \<^verbatim>\<open><div class="error">message</div>\<close> of a message that names a parameter that is
  lacking and says how to add it: the name and the guidance are in the container. When
  several are lacking the message names the one the script checks first; when \<open>p\<close> is
  the only one lacking, the container names \<open>p\<close>.
\<close>

theorem missing_parameter_no_request:
  "p \<in> set required_parameters
   \<and> (getParameter search p = None \<or> getParameter search p = Some []) \<longrightarrow>
     requests (fetchFileMetadata_2 up render search st) = requests st
     \<and> requests (fetchFileMetadata_3 up toLocaleString search st) = requests st
     \<and> (\<exists>q msg. q \<in> set required_parameters \<and> \<not> truthy (getParameter search q)
           \<and> container_html (fetchFileMetadata_2 up render search st)
               = ''<div class=\"error\">'' @ msg @ ''</div>''
           \<and> string_includes msg q \<and> string_includes msg ''Please add''
           \<and> string_includes (container_html (fetchFileMetadata_2 up render search st)) q
           \<and> string_includes (container_html (fetchFileMetadata_2 up render search st))
                 ''Please add'')
     \<and> (\<exists>q msg. q \<in> set required_parameters \<and> \<not> truthy (getParameter search q)
           \<and> container_html (fetchFileMetadata_3 up toLocaleString search st)
               = ''<div class=\"error\">'' @ msg @ ''</div>''
           \<and> string_includes msg q \<and> string_includes msg ''Please add''
           \<and> string_includes (container_html (fetchFileMetadata_3 up toLocaleString search st)) q
           \<and> string_includes (container_html (fetchFileMetadata_3 up toLocaleString search st))
                 ''Please add'')
     \<and> ((\<forall>q \<in> set required_parameters. q \<noteq> p \<longrightarrow> truthy (getParameter search q)) \<longrightarrow>
          string_includes (container_html (fetchFileMetadata_2 up render search st)) p
          \<and> string_includes (container_html (fetchFileMetadata_3 up toLocaleString search st)) p)"
proof (intro impI)
  assume h: "p \<in> set required_parameters
   \<and> (getParameter search p = None \<or> getParameter search p = Some [])"
  then have np: "\<not> truthy (getParameter search p)" by (auto simp: truthy_def)
  from h have p: "p = ''client_id'' \<or> p = ''client_secret'' \<or> p = ''file_id''"
    by (simp add: required_parameters_def)
  with np have lacking:
    "\<not> (truthy (getParameter search ''file_id'') \<and> truthy (getParameter search ''client_id'')
      \<and> truthy (getParameter search ''client_secret''))"
    by auto
  note e2 = early_return_2 [OF lacking, of up render st]
  note e3 = early_return_3 [OF lacking, of up toLocaleString st]
  let ?c2 = "container_html (fetchFileMetadata_2 up render search st)"
  let ?c3 = "container_html (fetchFileMetadata_3 up toLocaleString search st)"
  have c2: "?c2 = error_html (if \<not> truthy (getParameter search ''file_id'')
      then file_id_required else credentials_required)"
    by (simp add: e2)
  have c3: "?c3 = error_html (if \<not> truthy (getParameter search ''client_id'')
          \<or> \<not> truthy (getParameter search ''client_secret'') then credentials_required
        else file_id_required)"
    by (simp add: e3)
  have r: "requests (fetchFileMetadata_2 up render search st) = requests st"
    "requests (fetchFileMetadata_3 up toLocaleString search st) = requests st"
    by (simp_all add: e2 e3)
  have n2: "\<exists>q msg. q \<in> set required_parameters \<and> \<not> truthy (getParameter search q)
           \<and> ?c2 = ''<div class=\"error\">'' @ msg @ ''</div>''
           \<and> string_includes msg q \<and> string_includes msg ''Please add''
           \<and> string_includes ?c2 q \<and> string_includes ?c2 ''Please add''"
  proof (cases "truthy (getParameter search ''file_id'')")
    case False
    then show ?thesis
      by (intro names_file_id) (simp_all add: c2 required_parameters_def)
  next
    case True
    with lacking consider "\<not> truthy (getParameter search ''client_id'')"
      | "\<not> truthy (getParameter search ''client_secret'')" by auto
    then show ?thesis
    proof cases
      case 1
      with True show ?thesis
        by (intro names_client_id) (simp_all add: c2 required_parameters_def)
    next
      case 2
      with True show ?thesis
        by (intro names_client_secret) (simp_all add: c2 required_parameters_def)
    qed
  qed
  have n3: "\<exists>q msg. q \<in> set required_parameters \<and> \<not> truthy (getParameter search q)
           \<and> ?c3 = ''<div class=\"error\">'' @ msg @ ''</div>''
           \<and> string_includes msg q \<and> string_includes msg ''Please add''
           \<and> string_includes ?c3 q \<and> string_includes ?c3 ''Please add''"
  proof (cases "truthy (getParameter search ''client_id'')")
    case False
    then show ?thesis
      by (intro names_client_id) (simp_all add: c3 required_parameters_def)
  next
    case c: True
    show ?thesis
    proof (cases "truthy (getParameter search ''client_secret'')")
      case False
      then show ?thesis
        by (intro names_client_secret) (simp_all add: c3 required_parameters_def)
    next
      case True
      with c lacking have "\<not> truthy (getParameter search ''file_id'')" by simp
      with c True show ?thesis
        by (intro names_file_id) (simp_all add: c3 required_parameters_def)
    qed
  qed
  have only: "(\<forall>q \<in> set required_parameters. q \<noteq> p \<longrightarrow> truthy (getParameter search q)) \<longrightarrow>
          string_includes ?c2 p \<and> string_includes ?c3 p"
  proof
    assume o: "\<forall>q \<in> set required_parameters. q \<noteq> p \<longrightarrow> truthy (getParameter search q)"
    from p show "string_includes ?c2 p \<and> string_includes ?c3 p"
    proof (elim disjE)
      assume "p = ''client_id''"
      with o np show ?thesis
        unfolding c2 c3 by (auto simp: required_parameters_def error_html_names_parameters)
    next
      assume "p = ''client_secret''"
      with o np show ?thesis
        unfolding c2 c3 by (auto simp: required_parameters_def error_html_names_parameters)
    next
      assume "p = ''file_id''"
      with o np show ?thesis
        unfolding c2 c3 by (auto simp: required_parameters_def error_html_names_parameters)
    qed
  qed
  from r n2 n3 only show "requests (fetchFileMetadata_2 up render search st) = requests st
     \<and> requests (fetchFileMetadata_3 up toLocaleString search st) = requests st
     \<and> (\<exists>q msg. q \<in> set required_parameters \<and> \<not> truthy (getParameter search q)
           \<and> ?c2 = ''<div class=\"error\">'' @ msg @ ''</div>''
           \<and> string_includes msg q \<and> string_includes msg ''Please add''
           \<and> string_includes ?c2 q \<and> string_includes ?c2 ''Please add'')
     \<and> (\<exists>q msg. q \<in> set required_parameters \<and> \<not> truthy (getParameter search q)
           \<and> ?c3 = ''<div class=\"error\">'' @ msg @ ''</div>''
           \<and> string_includes msg q \<and> string_includes msg ''Please add''
           \<and> string_includes ?c3 q \<and> string_includes ?c3 ''Please add'')
     \<and> ((\<forall>q \<in> set required_parameters. q \<noteq> p \<longrightarrow> truthy (getParameter search q)) \<longrightarrow>
          string_includes ?c2 p \<and> string_includes ?c3 p)"
    by blast
qed

text \<open>The hypotheses of C5 hold for a query string without \<^verbatim>\<open>client_id\<close>.\<close>

theorem missing_parameter_no_request_witness:
  "''client_id'' \<in> set required_parameters
   \<and> getParameter ''?file_id=42&client_secret=xyz'' ''client_id'' = None
   \<and> truthy (getParameter ''?file_id=42&client_secret=xyz'' ''client_secret'')
   \<and> truthy (getParameter ''?file_id=42&client_secret=xyz'' ''file_id'')
   \<and> container_html (fetchFileMetadata_2 (\<lambda>hist req. Rejected (Error ''offline''))
         (\<lambda>metadata. Inr []) ''?file_id=42&client_secret=xyz'' page0)
       = ''<div class=\"error\">'' @ credentials_required @ ''</div>''
   \<and> string_includes (container_html (fetchFileMetadata_2
         (\<lambda>hist req. Rejected (Error ''offline''))
         (\<lambda>metadata. Inr []) ''?file_id=42&client_secret=xyz'' page0)) ''client_id''
   \<and> requests (fetchFileMetadata_2 (\<lambda>hist req. Rejected (Error ''offline''))
         (\<lambda>metadata. Inr []) ''?file_id=42&client_secret=xyz'' page0) = requests page0
   \<and> requests (fetchFileMetadata_3 (\<lambda>hist req. Rejected (Error ''offline''))
         (\<lambda>date. date) ''?file_id=42&client_secret=xyz'' page0) = requests page0"
  using missing_parameter_no_request [of "''client_id''" "''?file_id=42&client_secret=xyz''"
      "\<lambda>hist req. Rejected (Error ''offline'')" "\<lambda>metadata. Inr []" page0 "\<lambda>date. date"]
  by (simp add: required_parameters_def truthy_def getParameter_def URLSearchParams_def
      urlencoded_parse_def parse_pair_def form_decode_def plus_to_space_def
      fetchFileMetadata_2_def showMetadataError_def error_html_messages)

text \<open>
  Claim C7. An execution of the fetch action that passes the parameter checks ends with
  the button enabled and carrying its idle label, whatever the upstream answers and
  whatever the renderer does: every exception of the \<^verbatim>\<open>try\<close> block is handled and the
  \<^verbatim>\<open>finally\<close> block runs. An execution that stops at a parameter check never touches
  the button. So a button that is enabled before the action is enabled after it.
\<close>

theorem fetch_button_restored:
  "(truthy (getParameter search ''file_id'') \<and> truthy (getParameter search ''client_id'')
      \<and> truthy (getParameter search ''client_secret'') \<longrightarrow>
        \<not> button_disabled (fetchFileMetadata_2 up render search st)
        \<and> button_text (fetchFileMetadata_2 up render search st) = idle_label_2
        \<and> \<not> button_disabled (fetchFileMetadata_3 up toLocaleString search st)
        \<and> button_text (fetchFileMetadata_3 up toLocaleString search st) = idle_label_3)
   \<and> (\<not> (truthy (getParameter search ''file_id'') \<and> truthy (getParameter search ''client_id'')
      \<and> truthy (getParameter search ''client_secret'')) \<longrightarrow>
        button_disabled (fetchFileMetadata_2 up render search st) = button_disabled st
        \<and> button_text (fetchFileMetadata_2 up render search st) = button_text st
        \<and> button_disabled (fetchFileMetadata_3 up toLocaleString search st) = button_disabled st
        \<and> button_text (fetchFileMetadata_3 up toLocaleString search st) = button_text st)
   \<and> (\<not> button_disabled st \<longrightarrow>
        \<not> button_disabled (fetchFileMetadata_2 up render search st)
        \<and> \<not> button_disabled (fetchFileMetadata_3 up toLocaleString search st))"
proof -
  have a: "truthy (getParameter search ''file_id'') \<and> truthy (getParameter search ''client_id'')
      \<and> truthy (getParameter search ''client_secret'') \<Longrightarrow>
        \<not> button_disabled (fetchFileMetadata_2 up render search st)
        \<and> button_text (fetchFileMetadata_2 up render search st) = idle_label_2
        \<and> \<not> button_disabled (fetchFileMetadata_3 up toLocaleString search st)
        \<and> button_text (fetchFileMetadata_3 up toLocaleString search st) = idle_label_3"
    by (simp add: fetchFileMetadata_2_def fetchFileMetadata_3_def Let_def split_def)
  have b: "\<not> (truthy (getParameter search ''file_id'') \<and> truthy (getParameter search ''client_id'')
      \<and> truthy (getParameter search ''client_secret'')) \<Longrightarrow>
        button_disabled (fetchFileMetadata_2 up render search st) = button_disabled st
        \<and> button_text (fetchFileMetadata_2 up render search st) = button_text st
        \<and> button_disabled (fetchFileMetadata_3 up toLocaleString search st) = button_disabled st
        \<and> button_text (fetchFileMetadata_3 up toLocaleString search st) = button_text st"
    by (simp add: early_return_2 early_return_3)
  from a b show ?thesis by blast
qed

text \<open>
  The hypotheses of C7 hold for a complete query string, where every request is rejected
  and the renderer throws, and for a query string without credentials.
\<close>

theorem fetch_button_restored_witness:
  "truthy (getParameter ''?file_id=42&client_id=abc&client_secret=xyz'' ''file_id'')
   \<and> truthy (getParameter ''?file_id=42&client_id=abc&client_secret=xyz'' ''client_id'')
   \<and> truthy (getParameter ''?file_id=42&client_id=abc&client_secret=xyz'' ''client_secret'')
   \<and> \<not> button_disabled page0
   \<and> \<not> button_disabled (fetchFileMetadata_2 (\<lambda>hist req. Rejected (Error ''offline''))
         (\<lambda>metadata. Inl (Error ''render'')) ''?file_id=42&client_id=abc&client_secret=xyz'' page0)
   \<and> button_text (fetchFileMetadata_2 (\<lambda>hist req. Rejected (Error ''offline''))
         (\<lambda>metadata. Inl (Error ''render'')) ''?file_id=42&client_id=abc&client_secret=xyz'' page0)
       = idle_label_2
   \<and> \<not> truthy (getParameter ''?file_id=42'' ''client_id'')
   \<and> button_text (fetchFileMetadata_3 (\<lambda>hist req. Rejected (Error ''offline''))
         (\<lambda>date. date) ''?file_id=42'' page0) = button_text page0"
  using fetch_button_restored [of "''?file_id=42&client_id=abc&client_secret=xyz''"
      "\<lambda>hist req. Rejected (Error ''offline'')" "\<lambda>metadata. Inl (Error ''render'')" page0
      "\<lambda>date. date"]
    fetch_button_restored [of "''?file_id=42''"
      "\<lambda>hist req. Rejected (Error ''offline'')" "\<lambda>metadata. Inl (Error ''render'')" page0
      "\<lambda>date. date"]
  by (simp add: truthy_def getParameter_def URLSearchParams_def urlencoded_parse_def
      parse_pair_def form_decode_def plus_to_space_def page0_def)

text \<open>Escaped text has no angle bracket left.\<close>

lemma escape_char_no_angle:
  "CHR ''<'' \<notin> set (escape_char c) \<and> CHR ''>'' \<notin> set (escape_char c)"
  by (simp add: escape_char_def)

lemma escapeHtml_no_angle:
  "CHR ''<'' \<notin> set (escapeHtml s) \<and> CHR ''>'' \<notin> set (escapeHtml s)"
  by (induction s rule: escapeHtml.induct) (simp_all add: escape_char_no_angle)

text \<open>The parameter list escapes its key and its value.\<close>

lemma createParameterItem_escapes:
  "\<not> string_includes (createParameterItem ''<script>'' ''<script>'') ''<script>''"
  "string_includes (createParameterItem ''<script>'' ''<script>'') ''&lt;script&gt;''"
  by (simp_all add: createParameterItem_def nl_def indent_def escape_char_def eval_nat_numeral)

text \<open>
  Claim C3 says that every upstream string is escaped before it is inserted into HTML.
  The file card of the third script escapes the name, the owner and the description, and
  inserts the id, the type, the extension, the version, the SHA1, the tags and the shared
  link as they are: a file whose \<^verbatim>\<open>sha1\<close> is \<^verbatim>\<open><script>\<close> is rendered with that
  text in the markup.
\<close>

theorem displayFileMetadata_3_unescaped_sha1:
  "string_includes
     (container_html (displayFileMetadata_3 toLocaleString
        (empty_json\<lparr>j_id := Some ''1'', j_name := Some ''a.txt'', j_sha1 := Some ''<script>''\<rparr>)
        page0))
     ''<script>''"
  by (simp add: displayFileMetadata_3_def file_metadata_html_def truthy_def empty_json_def
      js_text_def js_or_def nl_def indent_def escapeHtml_opt_def escape_char_def fileSize_def
      version_def owner_def date_or_unknown_def commentCount_def yes_no_def tags_def
      shared_link_span_def sharedLink_def nat_toString.simps digit_char_def
      eval_nat_numeral)

end
